theory Spec2Isabelle
  imports Complex_Main "HOL-Library.AList"
begin

section \<open>Errors, arrays and the results table\<close>

text \<open>
  The module \<^verbatim>\<open>pele_analysis/_msm_clustering.py\<close> defines the class \<^verbatim>\<open>ligand_msm\<close> and the
  function \<^verbatim>\<open>_plot_Nice_PES\<close>. The class keeps its state in dictionaries held by instance
  attributes; every method is modelled as a function from the state before the call to either
  the state after it, or the exception raised together with the state at the raise (a Python
  exception leaves the attributes as they were mutated up to that point).
\<close>

datatype dkey = Key string | PairKey string string

datatype error =
    ValueError string
  | KeyError dkey
  | IndexError
  | AssertionError

type_synonym ('s, 'r) result = "(error \<times> 's) + 'r"

text \<open>
  A two-dimensional numpy array: its rows, and its column count \<^verbatim>\<open>shape[1]\<close> (kept apart
  from the rows, since an array without rows still has a column count).
\<close>

record ndarray =
  shape1 :: nat
  cells :: "real list list"

definition shape0 :: "ndarray \<Rightarrow> nat" where
  "shape0 a = length (cells a)"

definition hstack :: "ndarray \<Rightarrow> ndarray \<Rightarrow> ndarray" where
  "hstack a b = \<lparr>shape1 = shape1 a + shape1 b, cells = map2 (@) (cells a) (cells b)\<rparr>"

text \<open>\<^verbatim>\<open>np.concatenate([a, b], axis=1)\<close>: the row counts must agree.\<close>

definition concatenate_axis1 :: "ndarray \<Rightarrow> ndarray \<Rightarrow> error + ndarray" where
  "concatenate_axis1 a b =
     (if shape0 a = shape0 b then Inr (hstack a b)
      else Inl (ValueError ''all the input array dimensions except for the concatenation axis must match exactly''))"

text \<open>\<^verbatim>\<open>np.concatenate(arrays)\<close> along axis 0: at least one array, all of one column count.\<close>

definition concatenate :: "ndarray list \<Rightarrow> error + ndarray" where
  "concatenate arrays =
     (case arrays of
        [] \<Rightarrow> Inl (ValueError ''need at least one array to concatenate'')
      | a # rest \<Rightarrow>
          if list_all (\<lambda>b. shape1 b = shape1 a) rest
          then Inr \<lparr>shape1 = shape1 a, cells = concat (map cells arrays)\<rparr>
          else Inl (ValueError ''all the input array dimensions except for the concatenation axis must match exactly''))"

text \<open>
  The combined results table \<^verbatim>\<open>pele_analysis.data\<close>: a pandas frame with a multi-index. Only the
  index levels the module reads are kept (Protein, Ligand, Trajectory). \<open>trajectory_levels\<close> is
  \<^verbatim>\<open>index.levels[3]\<close>, the values of the Trajectory level; selecting rows with a boolean mask
  keeps the columns and the levels of the index as they are.
\<close>

record trow =
  r_protein :: string
  r_ligand :: string
  r_trajectory :: int
  r_cell :: "string \<Rightarrow> real"

record dataframe =
  columns :: "string list"
  trajectory_levels :: "int list"
  trows :: "trow list"

definition select_level :: "(trow \<Rightarrow> 'a) \<Rightarrow> 'a \<Rightarrow> dataframe \<Rightarrow> dataframe" where
  "select_level lev v df = df\<lparr>trows := filter (\<lambda>r. lev r = v) (trows df)\<rparr>"

text \<open>\<^verbatim>\<open>frame[names].to_numpy()\<close> for a list of column names taken from the frame's own columns.\<close>

definition to_numpy :: "string list \<Rightarrow> dataframe \<Rightarrow> ndarray" where
  "to_numpy names df = \<lparr>shape1 = length names, cells = map (\<lambda>r. map (r_cell r) names) (trows df)\<rparr>"

text \<open>\<^verbatim>\<open>frame[name].to_numpy()\<close> for one column name: a key error when the frame has no such column.\<close>

definition column_to_numpy :: "string \<Rightarrow> dataframe \<Rightarrow> error + real list" where
  "column_to_numpy name df =
     (if name \<in> set (columns df) then Inr (map (\<lambda>r. r_cell r name) (trows df))
      else Inl (KeyError (Key name)))"

definition startswith :: "string \<Rightarrow> string \<Rightarrow> bool" where
  "startswith s p = (take (length p) s = p)"

section \<open>The collaborators and the state of a \<^verbatim>\<open>ligand_msm\<close>\<close>

text \<open>
  The analysis object handed to the constructor. Its method
  \<^verbatim>\<open>getLigandTrajectoryPerTrajectory\<close> lives outside this module and is a parameter; \<open>pa_data\<close>
  is its attribute \<^verbatim>\<open>data\<close> and \<open>proteins\<close> its attribute \<^verbatim>\<open>proteins\<close> in iteration order.
\<close>

record pele_analysis =
  pele_combinations :: "(string \<times> string) list"
  proteins :: "string list"
  pa_data :: dataframe
  getLigandTrajectoryPerTrajectory :: "string \<Rightarrow> string \<Rightarrow> string list \<times> string"

text \<open>
  The calls into mdtraj and pyemma, as pure functions: \<open>'f\<close> is the featurizer and \<open>'m\<close> the
  fitted TICA model. \<open>add_selection_all\<close> is \<^verbatim>\<open>f.add_selection(f.select('all'))\<close>.
\<close>

record ('f, 'm) library =
  atom_names :: "string \<Rightarrow> string list"
  featurizer :: "string \<Rightarrow> 'f"
  add_selection_all :: "'f \<Rightarrow> 'f"
  load :: "string list \<Rightarrow> 'f \<Rightarrow> ndarray list"
  tica :: "ndarray list \<Rightarrow> int \<Rightarrow> 'm"
  get_output :: "'m \<Rightarrow> ndarray list"
  transform :: "'m \<Rightarrow> ndarray list \<Rightarrow> ndarray list"

text \<open>
  The instance attributes. \<open>data\<close> maps a ligand to a dictionary that \<^verbatim>\<open>calculateTICA\<close>
  iterates, so that inner dictionary is an association list in insertion order. \<open>ndims\<close> is
  not set by the constructor: \<open>None\<close> is the absent attribute.
\<close>

record ('f, 'm) ligand_msm =
  pele_analysis :: pele_analysis
  trajectories :: "string \<times> string \<rightharpoonup> string list"
  all_trajectories :: "string list"
  topology :: "string \<rightharpoonup> string"
  ligand_atoms :: "string \<rightharpoonup> string list"
  features :: "string \<rightharpoonup> 'f"
  data :: "string \<rightharpoonup> (string \<times> ndarray list) list"
  tica_output :: "string \<rightharpoonup> (string \<rightharpoonup> ndarray list)"
  tica_concatenated :: "string \<rightharpoonup> (string \<rightharpoonup> ndarray)"
  all_data :: "string \<rightharpoonup> ndarray list"
  all_tica :: "string \<rightharpoonup> 'm"
  all_tica_output :: "string \<rightharpoonup> ndarray list"
  all_tica_concatenated :: "string \<rightharpoonup> ndarray"
  metric_features :: "string \<rightharpoonup> (string \<rightharpoonup> ndarray list)"
  ndims :: "nat option"

section \<open>The constructor\<close>

fun init_combinations ::
  "('f, 'm) library \<Rightarrow> (string \<times> string) list \<Rightarrow> ('f, 'm) ligand_msm \<Rightarrow> ('f, 'm) ligand_msm" where
  "init_combinations lib [] s = s"
| "init_combinations lib ((protein, ligand) # rest) s =
     (let (paths, top) = getLigandTrajectoryPerTrajectory (pele_analysis s) protein ligand;
          s1 = s\<lparr>trajectories := (trajectories s)((protein, ligand) \<mapsto> paths),
                 topology := (topology s)(ligand \<mapsto> top)\<rparr>;
          s2 = s1\<lparr>all_trajectories := all_trajectories s1 @ paths\<rparr>;
          s3 = (if ligand_atoms s2 ligand = None
                then s2\<lparr>ligand_atoms := (ligand_atoms s2)(ligand \<mapsto> atom_names lib top)\<rparr>
                else s2);
          s4 = (if features s3 ligand = None
                then s3\<lparr>features := (features s3)(ligand \<mapsto> featurizer lib top)\<rparr>
                else s3)
      in init_combinations lib rest s4)"

definition init :: "('f, 'm) library \<Rightarrow> pele_analysis \<Rightarrow> ('f, 'm) ligand_msm" where
  "init lib pa =
     init_combinations lib (pele_combinations pa)
       \<lparr>pele_analysis = pa, trajectories = Map.empty, all_trajectories = [],
        topology = Map.empty, ligand_atoms = Map.empty, features = Map.empty,
        data = Map.empty, tica_output = Map.empty, tica_concatenated = Map.empty,
        all_data = Map.empty, all_tica = Map.empty, all_tica_output = Map.empty,
        all_tica_concatenated = Map.empty, metric_features = Map.empty, ndims = None\<rparr>"

section \<open>addFeature\<close>

definition implemented_features :: "string list" where
  "implemented_features = [''positions'', ''metrics'']"

text \<open>The text Python's \<^verbatim>\<open>%s\<close> gives for the list \<^verbatim>\<open>implemented_features\<close>.\<close>

definition str_implemented_features :: string where
  "str_implemented_features = ''['positions', 'metrics']''"

definition not_implemented_message :: "string \<Rightarrow> string" where
  "not_implemented_message feature =
     ''Feature '' @ feature @ '' not implemented. try: '' @ str_implemented_features"

definition metric_columns :: "dataframe \<Rightarrow> string list" where
  "metric_columns df = filter (\<lambda>m. startswith m ''metric_'') (columns df)"

text \<open>The inner loop of \<^verbatim>\<open>addFeature\<close>: one array per value of the Trajectory level.\<close>

definition trajectory_arrays :: "string list \<Rightarrow> dataframe \<Rightarrow> dataframe \<Rightarrow> ndarray list" where
  "trajectory_arrays metrics ligand_data protein_data =
     map (\<lambda>trajectory. to_numpy metrics (select_level r_trajectory trajectory protein_data))
       (trajectory_levels ligand_data)"

fun addFeature_proteins ::
  "string list \<Rightarrow> dataframe \<Rightarrow> string list \<Rightarrow> (string \<rightharpoonup> ndarray list) \<Rightarrow> (string \<rightharpoonup> ndarray list)" where
  "addFeature_proteins metrics ligand_data [] mf = mf"
| "addFeature_proteins metrics ligand_data (protein # rest) mf =
     (let present = (case mf protein of None \<Rightarrow> [] | Some arrays \<Rightarrow> arrays);
          protein_data = select_level r_protein protein ligand_data
      in addFeature_proteins metrics ligand_data rest
           (mf(protein \<mapsto> present @ trajectory_arrays metrics ligand_data protein_data)))"

definition addFeature_metrics :: "('f, 'm) ligand_msm \<Rightarrow> string \<Rightarrow> ('f, 'm) ligand_msm" where
  "addFeature_metrics s ligand =
     (let mf = (case metric_features s ligand of None \<Rightarrow> Map.empty | Some m \<Rightarrow> m);
          metrics = metric_columns (pa_data (pele_analysis s));
          ligand_data = select_level r_ligand ligand (pa_data (pele_analysis s))
      in s\<lparr>metric_features := (metric_features s)
             (ligand \<mapsto> addFeature_proteins metrics ligand_data (proteins (pele_analysis s)) mf)\<rparr>)"

definition addFeature ::
  "('f, 'm) library \<Rightarrow> ('f, 'm) ligand_msm \<Rightarrow> string \<Rightarrow> string
     \<Rightarrow> (('f, 'm) ligand_msm, ('f, 'm) ligand_msm) result" where
  "addFeature lib s feature ligand =
     (if feature \<notin> set implemented_features
      then Inl (ValueError (not_implemented_message feature), s)
      else
        case (if feature = ''positions''
              then (case features s ligand of
                      None \<Rightarrow> Inl (KeyError (Key ligand), s)
                    | Some f \<Rightarrow> Inr (s\<lparr>features := (features s)(ligand \<mapsto> add_selection_all lib f)\<rparr>))
              else Inr s) of
          Inl e \<Rightarrow> Inl e
        | Inr s1 \<Rightarrow> if feature = ''metrics'' then Inr (addFeature_metrics s1 ligand) else Inr s1)"

section \<open>getFeaturesData\<close>

definition set_data ::
  "('f, 'm) ligand_msm \<Rightarrow> string \<Rightarrow> string \<Rightarrow> ndarray list \<Rightarrow> ('f, 'm) ligand_msm" where
  "set_data s ligand protein arrays =
     s\<lparr>data := (data s)(ligand \<mapsto>
          AList.update protein arrays (case data s ligand of None \<Rightarrow> [] | Some d \<Rightarrow> d))\<rparr>"

text \<open>
  The loop over \<^verbatim>\<open>range(len(self.metric_features[ligand][protein]))\<close>. The assertion reads the
  metric array first and the feature array second, so an index past the end of the feature
  list is an index error raised by the assertion's own expression.
\<close>

fun add_metric_features ::
  "ndarray list \<Rightarrow> ndarray list \<Rightarrow> nat list \<Rightarrow> (error \<times> ndarray list) + ndarray list" where
  "add_metric_features mf d [] = Inr d"
| "add_metric_features mf d (t # ts) =
     (if length d \<le> t then Inl (IndexError, d)
      else if shape0 (mf ! t) \<noteq> shape0 (d ! t) then Inl (AssertionError, d)
      else case concatenate_axis1 (d ! t) (mf ! t) of
             Inl e \<Rightarrow> Inl (e, d)
           | Inr a \<Rightarrow> add_metric_features mf (d[t := a]) ts)"

fun getFeaturesData_proteins ::
  "('f, 'm) library \<Rightarrow> string \<Rightarrow> string list \<Rightarrow> ('f, 'm) ligand_msm
     \<Rightarrow> (('f, 'm) ligand_msm, ('f, 'm) ligand_msm) result" where
  "getFeaturesData_proteins lib ligand [] s = Inr s"
| "getFeaturesData_proteins lib ligand (protein # rest) s =
     (case trajectories s (protein, ligand) of
        None \<Rightarrow> Inl (KeyError (PairKey protein ligand), s)
      | Some paths \<Rightarrow>
          (case features s ligand of
             None \<Rightarrow> Inl (KeyError (Key ligand), s)
           | Some f \<Rightarrow>
               (let loaded = load lib paths f;
                    s1 = set_data s ligand protein loaded
                in case (case metric_features s1 ligand of
                           None \<Rightarrow> Inr s1
                         | Some per_protein \<Rightarrow>
                             (case per_protein protein of
                                None \<Rightarrow> Inl (KeyError (Key protein), s1)
                              | Some mf \<Rightarrow>
                                  (case add_metric_features mf loaded [0..<length mf] of
                                     Inl (e, d) \<Rightarrow> Inl (e, set_data s1 ligand protein d)
                                   | Inr d \<Rightarrow> Inr (set_data s1 ligand protein d)))) of
                     Inl e \<Rightarrow> Inl e
                   | Inr s2 \<Rightarrow>
                       getFeaturesData_proteins lib ligand rest
                         (s2\<lparr>all_data := (all_data s2)(ligand \<mapsto>
                               (case all_data s2 ligand of None \<Rightarrow> [] | Some pooled \<Rightarrow> pooled)
                               @ (case map_of (case data s2 ligand of None \<Rightarrow> [] | Some d \<Rightarrow> d) protein of
                                    None \<Rightarrow> [] | Some arrays \<Rightarrow> arrays))\<rparr>))))"

definition getFeaturesData ::
  "('f, 'm) library \<Rightarrow> ('f, 'm) ligand_msm \<Rightarrow> string
     \<Rightarrow> (('f, 'm) ligand_msm, ('f, 'm) ligand_msm) result" where
  "getFeaturesData lib s ligand =
     (let s1 = (if data s ligand = None then s\<lparr>data := (data s)(ligand \<mapsto> [])\<rparr> else s);
          s2 = (if all_data s1 ligand = None then s1\<lparr>all_data := (all_data s1)(ligand \<mapsto> [])\<rparr> else s1)
      in getFeaturesData_proteins lib ligand (proteins (pele_analysis s2)) s2)"

text \<open>
  Two names for parts of the loop body, used to state what the loop does. \<open>loaded_features\<close> is
  what one pass computes for a protein: the arrays it leaves under \<^verbatim>\<open>data[ligand][protein]\<close>, or
  the exception with the arrays stored there at the raise (\<open>None\<close> when the raise comes before the
  assignment). \<open>pool\<close> is the effect of a pass that completes.
\<close>

definition loaded_features ::
  "('f, 'm) library \<Rightarrow> ('f, 'm) ligand_msm \<Rightarrow> string \<Rightarrow> string
     \<Rightarrow> (error \<times> ndarray list option) + ndarray list" where
  "loaded_features lib s ligand protein =
     (case trajectories s (protein, ligand) of
        None \<Rightarrow> Inl (KeyError (PairKey protein ligand), None)
      | Some paths \<Rightarrow>
          (case features s ligand of
             None \<Rightarrow> Inl (KeyError (Key ligand), None)
           | Some f \<Rightarrow>
               (case metric_features s ligand of
                  None \<Rightarrow> Inr (load lib paths f)
                | Some per_protein \<Rightarrow>
                    (case per_protein protein of
                       None \<Rightarrow> Inl (KeyError (Key protein), Some (load lib paths f))
                     | Some mf \<Rightarrow>
                         (case add_metric_features mf (load lib paths f) [0..<length mf] of
                            Inl (e, d) \<Rightarrow> Inl (e, Some d)
                          | Inr d \<Rightarrow> Inr d)))))"

definition pool ::
  "('f, 'm) ligand_msm \<Rightarrow> string \<Rightarrow> string \<Rightarrow> ndarray list \<Rightarrow> ('f, 'm) ligand_msm" where
  "pool s ligand protein arrays =
     (set_data s ligand protein arrays)
       \<lparr>all_data := (all_data s)(ligand \<mapsto>
          (case all_data s ligand of None \<Rightarrow> [] | Some pooled \<Rightarrow> pooled) @ arrays)\<rparr>"

section \<open>calculateTICA and the lag-time sweep\<close>

fun calculateTICA_proteins ::
  "('f, 'm) library \<Rightarrow> string \<Rightarrow> 'm \<Rightarrow> (string \<times> ndarray list) list \<Rightarrow> ('f, 'm) ligand_msm
     \<Rightarrow> (('f, 'm) ligand_msm, ('f, 'm) ligand_msm) result" where
  "calculateTICA_proteins lib ligand model [] s = Inr s"
| "calculateTICA_proteins lib ligand model ((protein, arrays) # rest) s =
     (let out = transform lib model arrays;
          s1 = s\<lparr>tica_output := (tica_output s)(ligand \<mapsto>
                  (case tica_output s ligand of None \<Rightarrow> Map.empty | Some m \<Rightarrow> m)(protein \<mapsto> out))\<rparr>
      in case concatenate out of
           Inl e \<Rightarrow> Inl (e, s1)
         | Inr c \<Rightarrow>
             calculateTICA_proteins lib ligand model rest
               (s1\<lparr>tica_concatenated := (tica_concatenated s1)(ligand \<mapsto>
                     (case tica_concatenated s1 ligand of None \<Rightarrow> Map.empty | Some m \<Rightarrow> m)(protein \<mapsto> c))\<rparr>))"

definition calculateTICA ::
  "('f, 'm) library \<Rightarrow> ('f, 'm) ligand_msm \<Rightarrow> string \<Rightarrow> int
     \<Rightarrow> (('f, 'm) ligand_msm, ('f, 'm) ligand_msm) result" where
  "calculateTICA lib s ligand lag_time =
     (case all_data s ligand of
        None \<Rightarrow> Inl (KeyError (Key ligand), s)
      | Some pooled \<Rightarrow>
          (let model = tica lib pooled lag_time;
               s1 = s\<lparr>all_tica := (all_tica s)(ligand \<mapsto> model)\<rparr>;
               out = get_output lib model;
               s2 = s1\<lparr>all_tica_output := (all_tica_output s1)(ligand \<mapsto> out)\<rparr>
           in case concatenate out of
                Inl e \<Rightarrow> Inl (e, s2)
              | Inr c \<Rightarrow>
                  (let s3 = s2\<lparr>all_tica_concatenated := (all_tica_concatenated s2)(ligand \<mapsto> c)\<rparr>;
                       s4 = s3\<lparr>ndims := Some (shape1 c)\<rparr>;
                       s5 = (if tica_output s4 ligand = None
                             then s4\<lparr>tica_output := (tica_output s4)(ligand \<mapsto> Map.empty)\<rparr> else s4);
                       s6 = (if tica_concatenated s5 ligand = None
                             then s5\<lparr>tica_concatenated := (tica_concatenated s5)(ligand \<mapsto> Map.empty)\<rparr> else s5)
                   in case data s6 ligand of
                        None \<Rightarrow> Inl (KeyError (Key ligand), s6)
                      | Some d \<Rightarrow> calculateTICA_proteins lib ligand model d s6)))"

text \<open>
  The calls into the plotting library: a plotting method returns the calls it made, in order.
  \<open>Subplots rows width height\<close> is \<^verbatim>\<open>plt.subplots\<close> with that number of rows and that \<^verbatim>\<open>figsize\<close>.
  The calls of the lag-time plot have constant arguments and are taken to return. The two TICA
  plots pass arguments of their caller to the library, which may refuse them: they take the
  library as a parameter \<open>plt\<close> that gives, for a call, the exception it raises, if any.
\<close>

datatype plot_call =
    Figure
  | Subplots nat int int
  | Plot "int list" "nat list"
  | XLabel string
  | YLabel string
  | FeatureHistograms ndarray "string list"
  | PlotDensity "real list" "real list" nat string string
  | TightLayout

fun plotLagTimeVsTICADim_sweep ::
  "('f, 'm) library \<Rightarrow> string \<Rightarrow> int list \<Rightarrow> ('f, 'm) ligand_msm \<Rightarrow> int list \<Rightarrow> nat list
     \<Rightarrow> (('f, 'm) ligand_msm, ('f, 'm) ligand_msm \<times> int list \<times> nat list) result" where
  "plotLagTimeVsTICADim_sweep lib ligand [] s lag_times dims = Inr (s, lag_times, dims)"
| "plotLagTimeVsTICADim_sweep lib ligand (lt # rest) s lag_times dims =
     (case calculateTICA lib s ligand lt of
        Inl e \<Rightarrow> Inl e
      | Inr s1 \<Rightarrow>
          (case all_tica_concatenated s1 ligand of
             None \<Rightarrow> Inl (KeyError (Key ligand), s1)
           | Some c \<Rightarrow>
               plotLagTimeVsTICADim_sweep lib ligand rest s1 (lag_times @ [lt]) (dims @ [shape1 c])))"

definition plotLagTimeVsTICADim ::
  "('f, 'm) library \<Rightarrow> ('f, 'm) ligand_msm \<Rightarrow> string \<Rightarrow> int
     \<Rightarrow> (('f, 'm) ligand_msm, ('f, 'm) ligand_msm \<times> plot_call list) result" where
  "plotLagTimeVsTICADim lib s ligand max_lag_time =
     (case plotLagTimeVsTICADim_sweep lib ligand [1..max_lag_time] s [] [] of
        Inl e \<Rightarrow> Inl e
      | Inr (s1, lag_times, dims) \<Rightarrow>
          Inr (s1, [Figure, Plot lag_times dims, XLabel ''Lag time [ns]'',
                    YLabel ''Nbr. of dimensions holding 95% of the kinetic variance'']))"

section \<open>plotTICADistribution and plotTICADensity\<close>

text \<open>Python's \<^verbatim>\<open>str\<close> of an integer.\<close>

fun str_nat :: "nat \<Rightarrow> string" where
  "str_nat n =
     (if n < 10 then [char_of (48 + n)]
      else str_nat (n div 10) @ [char_of (48 + n mod 10)])"

definition str_int :: "int \<Rightarrow> string" where
  "str_int i = (if i < 0 then CHR ''-'' # str_nat (nat (- i)) else str_nat (nat i))"

text \<open>The slice \<^verbatim>\<open>xs[:k]\<close>: a negative \<open>k\<close> counts from the end.\<close>

definition slice_to :: "int \<Rightarrow> 'a list \<Rightarrow> 'a list" where
  "slice_to k xs = (if 0 \<le> k then take (nat k) xs else take (length xs - nat (- k)) xs)"

definition slice_columns :: "int \<Rightarrow> ndarray \<Rightarrow> ndarray" where
  "slice_columns k a =
     \<lparr>shape1 = length (slice_to k (replicate (shape1 a) ())), cells = map (slice_to k) (cells a)\<rparr>"

text \<open>
  A run of library calls that read nothing of the instance: the first one the library refuses
  ends the method with the library's exception.
\<close>

fun run_plots ::
  "(plot_call \<Rightarrow> error option) \<Rightarrow> 's \<Rightarrow> plot_call list \<Rightarrow> plot_call list
     \<Rightarrow> ('s, 's \<times> plot_call list) result" where
  "run_plots plt s made [] = Inr (s, made)"
| "run_plots plt s made (c # rest) =
     (case plt c of
        Some e \<Rightarrow> Inl (e, s)
      | None \<Rightarrow> run_plots plt s (made @ [c]) rest)"

text \<open>
  \<^verbatim>\<open>plt.subplots(1, 1, figsize=(12, max_tica))\<close> runs first; the pooled output is read when the
  arguments of \<^verbatim>\<open>plot_feature_histograms\<close> are evaluated.
\<close>

definition plotTICADistribution ::
  "(plot_call \<Rightarrow> error option) \<Rightarrow> ('f, 'm) ligand_msm \<Rightarrow> string \<Rightarrow> int
     \<Rightarrow> (('f, 'm) ligand_msm, ('f, 'm) ligand_msm \<times> plot_call list) result" where
  "plotTICADistribution plt s ligand max_tica =
     (case plt (Subplots 1 12 max_tica) of
        Some e \<Rightarrow> Inl (e, s)
      | None \<Rightarrow>
          (case all_tica_concatenated s ligand of
             None \<Rightarrow> Inl (KeyError (Key ligand), s)
           | Some c \<Rightarrow>
               run_plots plt s [Subplots 1 12 max_tica]
                 [FeatureHistograms (slice_columns max_tica c)
                    (map (\<lambda>i. ''IC'' @ str_int i) [1..max_tica]),
                  TightLayout]))"

text \<open>The loop filling \<^verbatim>\<open>IC\<close>: column \<open>i\<close> of the pooled output for each \<open>i\<close> of \<^verbatim>\<open>range(ndims)\<close>.\<close>

fun plotTICADensity_columns ::
  "('f, 'm) ligand_msm \<Rightarrow> string \<Rightarrow> nat list \<Rightarrow> (nat \<rightharpoonup> real list)
     \<Rightarrow> (('f, 'm) ligand_msm, nat \<rightharpoonup> real list) result" where
  "plotTICADensity_columns s ligand [] ic = Inr ic"
| "plotTICADensity_columns s ligand (i # rest) ic =
     (case all_tica_concatenated s ligand of
        None \<Rightarrow> Inl (KeyError (Key ligand), s)
      | Some c \<Rightarrow>
          if shape1 c \<le> i then Inl (IndexError, s)
          else plotTICADensity_columns s ligand rest (ic(i \<mapsto> map (\<lambda>r. r ! i) (cells c))))"

text \<open>\<^verbatim>\<open>itertools.combinations(range(n), r=2)\<close>.\<close>

definition combinations2 :: "nat \<Rightarrow> (nat \<times> nat) list" where
  "combinations2 n = concat (map (\<lambda>a. map (\<lambda>b. (a, b)) [Suc a..<n]) [0..<n])"

text \<open>
  The columns are read first; then come
  \<^verbatim>\<open>plt.subplots(len(combinations), figsize=(7, 5*len(combinations)), ...)\<close> and, for every pair,
  the density plot with its two axis labels.
\<close>

definition plotTICADensity ::
  "(plot_call \<Rightarrow> error option) \<Rightarrow> ('f, 'm) ligand_msm \<Rightarrow> string \<Rightarrow> int
     \<Rightarrow> (('f, 'm) ligand_msm, ('f, 'm) ligand_msm \<times> plot_call list) result" where
  "plotTICADensity plt s ligand n =
     (case plotTICADensity_columns s ligand [0..<nat n] Map.empty of
        Inl e \<Rightarrow> Inl e
      | Inr ic \<Rightarrow>
          (let combinations = combinations2 (nat n)
           in run_plots plt s []
                (Subplots (length combinations) 7 (5 * int (length combinations)) #
                 map (\<lambda>(i, c).
                        PlotDensity (case ic (fst c) of None \<Rightarrow> [] | Some col \<Rightarrow> col)
                          (case ic (snd c) of None \<Rightarrow> [] | Some col \<Rightarrow> col)
                          (if length combinations \<le> 1 then 0 else i)
                          (''IC '' @ str_nat (fst c + 1)) (''IC '' @ str_nat (snd c + 1)))
                   (zip [0..<length combinations] combinations))))"

section \<open>getMetricData\<close>

fun getMetricData_trajectories ::
  "('f, 'm) ligand_msm \<Rightarrow> dataframe \<Rightarrow> string \<Rightarrow> int list \<Rightarrow> real list list
     \<Rightarrow> (('f, 'm) ligand_msm, real list list) result" where
  "getMetricData_trajectories s protein_data metric [] metric_data = Inr metric_data"
| "getMetricData_trajectories s protein_data metric (trajectory # rest) metric_data =
     (case column_to_numpy metric (select_level r_trajectory trajectory protein_data) of
        Inl e \<Rightarrow> Inl (e, s)
      | Inr column \<Rightarrow>
          getMetricData_trajectories s protein_data metric rest (metric_data @ [column]))"

definition getMetricData ::
  "('f, 'm) ligand_msm \<Rightarrow> string \<Rightarrow> string \<Rightarrow> string
     \<Rightarrow> (('f, 'm) ligand_msm, real list list) result" where
  "getMetricData s ligand protein metric =
     (let ligand_data = select_level r_ligand ligand (pa_data (pele_analysis s));
          protein_data = select_level r_protein protein ligand_data
      in getMetricData_trajectories s protein_data metric (trajectory_levels ligand_data) [])"

section \<open>The free-energy transform of \<^verbatim>\<open>_plot_Nice_PES\<close>\<close>

text \<open>
  \<open>z\<close> is the histogram returned by \<^verbatim>\<open>np.histogram2d\<close>, as its rows. The code adds 0.1 to every
  bin, takes \<^verbatim>\<open>F = -np.log(z)\<close>, and hands \<^verbatim>\<open>(F.T)*0.592 - np.min(F.T)*0.592\<close> to the Gaussian
  filter. Floating-point numbers are idealised as reals. \<^verbatim>\<open>np.min\<close> raises on an array without
  elements.
\<close>

definition free_energy :: "real list list \<Rightarrow> real list list" where
  "free_energy z = map (map (\<lambda>count. - ln (count + 0.1))) z"

definition np_min :: "real list list \<Rightarrow> error + real" where
  "np_min a =
     (case concat a of
        [] \<Rightarrow> Inl (ValueError ''zero-size array to reduction operation minimum which has no identity'')
      | x # xs \<Rightarrow> Inr (fold min xs x))"

definition shifted_surface :: "real list list \<Rightarrow> error + real list list" where
  "shifted_surface z =
     (let ft = transpose (free_energy z)
      in case np_min ft of
           Inl e \<Rightarrow> Inl e
         | Inr m \<Rightarrow> Inr (map (map (\<lambda>f. f * 0.592 - m * 0.592)) ft))"

section \<open>Histories of calls\<close>

text \<open>The state a call leaves behind, whether it returned or raised.\<close>

definition state_after :: "('s, 's) result \<Rightarrow> 's" where
  "state_after r = (case r of Inl (e, s) \<Rightarrow> s | Inr s \<Rightarrow> s)"

definition state_after_plot :: "('s, 's \<times> 'p) result \<Rightarrow> 's" where
  "state_after_plot r = (case r of Inl (e, s) \<Rightarrow> s | Inr (s, plots) \<Rightarrow> s)"

text \<open>
  \<open>never_fitted lib ligand s\<close>: the instance \<open>s\<close> was constructed and then used through any calls
  of its state-changing methods, none of them \<^verbatim>\<open>calculateTICA\<close> (or the lag-time sweep, which calls
  it) for \<open>ligand\<close>. The two plotting methods and \<^verbatim>\<open>getMetricData\<close> leave the state as it is.
\<close>

inductive never_fitted :: "('f, 'm) library \<Rightarrow> string \<Rightarrow> ('f, 'm) ligand_msm \<Rightarrow> bool"
  for lib :: "('f, 'm) library" and ligand :: string where
  constructed: "never_fitted lib ligand (init lib pa)"
| after_addFeature:
    "never_fitted lib ligand s \<Longrightarrow> never_fitted lib ligand (state_after (addFeature lib s feature l))"
| after_getFeaturesData:
    "never_fitted lib ligand s \<Longrightarrow> never_fitted lib ligand (state_after (getFeaturesData lib s l))"
| after_calculateTICA:
    "never_fitted lib ligand s \<Longrightarrow> l \<noteq> ligand
       \<Longrightarrow> never_fitted lib ligand (state_after (calculateTICA lib s l lag_time))"
| after_plotLagTimeVsTICADim:
    "never_fitted lib ligand s \<Longrightarrow> l \<noteq> ligand
       \<Longrightarrow> never_fitted lib ligand (state_after_plot (plotLagTimeVsTICADim lib s l max_lag_time))"

section \<open>A small instance\<close>

text \<open>
  One ligand \<open>L\<close> simulated with two proteins: \<open>P1\<close> has trajectories 1 and 2, \<open>P2\<close> has
  trajectory 1 only; every trajectory has one frame. The stand-in library loads one row per
  trajectory file, with as many columns as the featurizer has selected; its TICA projects
  onto \<open>lag\<close> columns (the first ones, filled up with zeros).
\<close>

definition example_frame :: dataframe where
  "example_frame =
     \<lparr>columns = [''metric_distance'', ''Binding Energy''],
      trajectory_levels = [1, 2],
      trows = [\<lparr>r_protein = ''P1'', r_ligand = ''L'', r_trajectory = 1, r_cell = (\<lambda>c. 1)\<rparr>,
               \<lparr>r_protein = ''P1'', r_ligand = ''L'', r_trajectory = 2, r_cell = (\<lambda>c. 2)\<rparr>,
               \<lparr>r_protein = ''P2'', r_ligand = ''L'', r_trajectory = 1, r_cell = (\<lambda>c. 3)\<rparr>]\<rparr>"

definition example_analysis :: pele_analysis where
  "example_analysis =
     \<lparr>pele_combinations = [(''P1'', ''L''), (''P2'', ''L'')],
      proteins = [''P1'', ''P2''],
      pa_data = example_frame,
      getLigandTrajectoryPerTrajectory =
        (\<lambda>protein ligand.
           (if protein = ''P1'' then [''P1_L_1.xtc'', ''P1_L_2.xtc''] else [''P2_L_1.xtc''],
            ligand @ ''.pdb''))\<rparr>"

definition keep_columns :: "nat \<Rightarrow> ndarray \<Rightarrow> ndarray" where
  "keep_columns k a = \<lparr>shape1 = k, cells = map (\<lambda>row. take k (row @ replicate k 0)) (cells a)\<rparr>"

definition example_library :: "(nat, ndarray list \<times> nat) library" where
  "example_library =
     \<lparr>atom_names = (\<lambda>top. [''C1'', ''O1'']),
      featurizer = (\<lambda>top. 0),
      add_selection_all = (\<lambda>f. f + 6),
      load = (\<lambda>paths f. map (\<lambda>path. \<lparr>shape1 = f, cells = [replicate f 0]\<rparr>) paths),
      tica = (\<lambda>arrays lag. (arrays, nat lag)),
      get_output = (\<lambda>m. map (keep_columns (snd m)) (fst m)),
      transform = (\<lambda>m arrays. map (keep_columns (snd m)) arrays)\<rparr>"

text \<open>
  A plotting library with the two refusals of matplotlib's \<^verbatim>\<open>subplots\<close> that the TICA plots can
  meet before they read the instance: a figure size with a negative side, and a number of rows
  below one (both value errors). It is used on calls of \<^verbatim>\<open>subplots\<close> only.
\<close>

definition subplots_refusals :: "plot_call \<Rightarrow> error option" where
  "subplots_refusals call =
     (case call of
        Subplots rows width height \<Rightarrow>
          if width < 0 \<or> height < 0 then Some (ValueError ''figure size must be positive finite'')
          else if rows = 0 then Some (ValueError ''Number of rows must be a positive integer'')
          else None
      | _ \<Rightarrow> None)"

text \<open>An instance holding loaded features for two ligands, ready to be fitted.\<close>

definition example_array :: ndarray where
  "example_array = \<lparr>shape1 = 3, cells = [[1, 2, 3], [4, 5, 6]]\<rparr>"

definition loaded_state :: "(nat, ndarray list \<times> nat) ligand_msm" where
  "loaded_state =
     \<lparr>pele_analysis = example_analysis, trajectories = Map.empty, all_trajectories = [],
      topology = Map.empty, ligand_atoms = Map.empty, features = Map.empty,
      data = [''L'' \<mapsto> [(''P1'', [example_array])], ''M'' \<mapsto> [(''P1'', [example_array])]],
      tica_output = Map.empty, tica_concatenated = Map.empty,
      all_data = [''L'' \<mapsto> [example_array], ''M'' \<mapsto> [example_array]],
      all_tica = Map.empty, all_tica_output = Map.empty,
      all_tica_concatenated = Map.empty, metric_features = Map.empty, ndims = None\<rparr>"

text \<open>
  The instance for the protein \<open>P1\<close> alone, after \<^verbatim>\<open>addFeature('positions', 'L')\<close> and
  \<^verbatim>\<open>addFeature('metrics', 'L')\<close>: two metric arrays of one row each, and two trajectory files. A
  second library loads two frames per trajectory.
\<close>

definition aligned_state :: "(nat, ndarray list \<times> nat) ligand_msm" where
  "aligned_state =
     \<lparr>pele_analysis = example_analysis\<lparr>proteins := [''P1'']\<rparr>,
      trajectories = [(''P1'', ''L'') \<mapsto> [''P1_L_1.xtc'', ''P1_L_2.xtc'']],
      all_trajectories = [''P1_L_1.xtc'', ''P1_L_2.xtc''],
      topology = [''L'' \<mapsto> ''L.pdb''], ligand_atoms = [''L'' \<mapsto> [''C1'', ''O1'']],
      features = [''L'' \<mapsto> 6],
      data = Map.empty, tica_output = Map.empty, tica_concatenated = Map.empty,
      all_data = Map.empty, all_tica = Map.empty, all_tica_output = Map.empty,
      all_tica_concatenated = Map.empty,
      metric_features = [''L'' \<mapsto> [''P1'' \<mapsto> [\<lparr>shape1 = 1, cells = [[1]]\<rparr>, \<lparr>shape1 = 1, cells = [[2]]\<rparr>]]],
      ndims = None\<rparr>"




text \<open>
  The end-to-end scenario: one ligand, two proteins, two trajectories of 100 frames for each
  pair.
\<close>

definition scenario_analysis :: pele_analysis where
  "scenario_analysis =
     \<lparr>pele_combinations = [(''P1'', ''L''), (''P2'', ''L'')],
      proteins = [''P1'', ''P2''],
      pa_data = example_frame,
      getLigandTrajectoryPerTrajectory =
        (\<lambda>protein ligand. ([protein @ ''_1.xtc'', protein @ ''_2.xtc''], ligand @ ''.pdb''))\<rparr>"

definition scenario_library :: "(nat, ndarray list \<times> nat) library" where
  "scenario_library =
     example_library\<lparr>load := (\<lambda>paths f. map (\<lambda>path. \<lparr>shape1 = 3, cells = replicate 100 [0, 0, 0]\<rparr>) paths)\<rparr>"

section \<open>Refitting: what a call of \<^verbatim>\<open>calculateTICA\<close> keeps and what it overwrites\<close>

lemma calculateTICA_proteins_frame:
  "calculateTICA_proteins lib l m d s = Inr s' \<Longrightarrow>
     s' = s\<lparr>tica_output := tica_output s', tica_concatenated := tica_concatenated s'\<rparr>"
proof (induction d arbitrary: s)
  case Nil
  then show ?case by simp
next
  case (Cons pa d)
  obtain p a where pa: "pa = (p, a)" by (cases pa)
  from Cons.prems obtain c where c: "concatenate (transform lib m a) = Inr c"
    by (auto simp: pa Let_def split: sum.splits)
  let ?s1 = "s\<lparr>tica_output := (tica_output s)(l \<mapsto>
                  (case tica_output s l of None \<Rightarrow> Map.empty | Some m \<Rightarrow> m)(p \<mapsto> transform lib m a))\<rparr>"
  let ?s2 = "?s1\<lparr>tica_concatenated := (tica_concatenated ?s1)(l \<mapsto>
                     (case tica_concatenated ?s1 l of None \<Rightarrow> Map.empty | Some m \<Rightarrow> m)(p \<mapsto> c))\<rparr>"
  from Cons.prems c have "calculateTICA_proteins lib l m d ?s2 = Inr s'"
    by (simp add: pa Let_def)
  from Cons.IH[OF this] show ?case
    by (metis (no_types, lifting) ligand_msm.surjective ligand_msm.update_convs(8) ligand_msm.update_convs(9))
qed

lemma calculateTICA_proteins_frame_error:
  "calculateTICA_proteins lib l m d s = Inl (e, s') \<Longrightarrow>
     s' = s\<lparr>tica_output := tica_output s', tica_concatenated := tica_concatenated s'\<rparr>"
proof (induction d arbitrary: s)
  case Nil
  then show ?case by simp
next
  case (Cons pa d)
  obtain p a where pa: "pa = (p, a)" by (cases pa)
  show ?case
  proof (cases "concatenate (transform lib m a)")
    case (Inl err)
    with Cons.prems show ?thesis by (auto simp: pa Let_def fun_upd_def)
  next
    case (Inr c)
    let ?s1 = "s\<lparr>tica_output := (tica_output s)(l \<mapsto>
                  (case tica_output s l of None \<Rightarrow> Map.empty | Some m \<Rightarrow> m)(p \<mapsto> transform lib m a))\<rparr>"
    let ?s2 = "?s1\<lparr>tica_concatenated := (tica_concatenated ?s1)(l \<mapsto>
                     (case tica_concatenated ?s1 l of None \<Rightarrow> Map.empty | Some m \<Rightarrow> m)(p \<mapsto> c))\<rparr>"
    from Cons.prems Inr have "calculateTICA_proteins lib l m d ?s2 = Inl (e, s')"
      by (simp add: pa Let_def)
    from Cons.IH[OF this] show ?thesis
      by (metis (no_types, lifting) ligand_msm.surjective ligand_msm.update_convs(8) ligand_msm.update_convs(9))
  qed
qed

lemma calculateTICA_proteins_shape:
  "calculateTICA_proteins lib l m d s = Inr s' \<Longrightarrow>
   tica_output s l = Some a \<Longrightarrow> tica_concatenated s l = Some c \<Longrightarrow>
   \<exists>a' c'. tica_output s' = (tica_output s)(l \<mapsto> a') \<and>
           tica_concatenated s' = (tica_concatenated s)(l \<mapsto> c') \<and>
           (\<forall>p. p \<notin> fst ` set d \<longrightarrow> a' p = a p \<and> c' p = c p)"
proof (induction d arbitrary: s a c)
  case Nil
  then show ?case
    by (intro exI[of _ a] exI[of _ c]) (auto simp: fun_upd_idem)
next
  case (Cons pa d)
  obtain p arr where pa: "pa = (p, arr)" by (cases pa)
  from Cons.prems(1) obtain cc where cc: "concatenate (transform lib m arr) = Inr cc"
    by (auto simp: pa Let_def split: sum.splits)
  let ?s2 = "s\<lparr>tica_output := (tica_output s)(l \<mapsto> a(p \<mapsto> transform lib m arr)),
               tica_concatenated := (tica_concatenated s)(l \<mapsto> c(p \<mapsto> cc))\<rparr>"
  from Cons.prems cc have run: "calculateTICA_proteins lib l m d ?s2 = Inr s'"
    by (simp add: pa Let_def)
  have "tica_output ?s2 l = Some (a(p \<mapsto> transform lib m arr))"
    and "tica_concatenated ?s2 l = Some (c(p \<mapsto> cc))" by simp_all
  from Cons.IH[OF run this] obtain a' c' where
    "tica_output s' = (tica_output ?s2)(l \<mapsto> a')"
    "tica_concatenated s' = (tica_concatenated ?s2)(l \<mapsto> c')"
    "\<forall>q. q \<notin> fst ` set d \<longrightarrow> a' q = (a(p \<mapsto> transform lib m arr)) q \<and> c' q = (c(p \<mapsto> cc)) q"
    by blast
  then show ?case
    by (intro exI[of _ a'] exI[of _ c']) (auto simp: pa)
qed

lemma calculateTICA_proteins_agree:
  "tica_output s l = Some a \<Longrightarrow> tica_concatenated s l = Some c \<Longrightarrow>
   \<forall>p. p \<notin> fst ` set d \<longrightarrow> a' p = a p \<and> c' p = c p \<Longrightarrow>
   map_sum fst id (calculateTICA_proteins lib l m d
       (s\<lparr>tica_output := (tica_output s)(l \<mapsto> a'),
          tica_concatenated := (tica_concatenated s)(l \<mapsto> c')\<rparr>))
     = map_sum fst id (calculateTICA_proteins lib l m d s)"
proof (induction d arbitrary: s a a' c c')
  case Nil
  then have "a' = a" "c' = c" by auto
  with Nil have "(tica_output s)(l \<mapsto> a') = tica_output s"
    "(tica_concatenated s)(l \<mapsto> c') = tica_concatenated s" by (simp_all add: fun_upd_idem)
  then show ?case by simp
next
  case (Cons pa d)
  obtain p arr where pa: "pa = (p, arr)" by (cases pa)
  show ?case
  proof (cases "concatenate (transform lib m arr)")
    case (Inl err)
    then show ?thesis by (simp add: pa Let_def)
  next
    case (Inr cc)
    let ?out = "transform lib m arr"
    let ?s2 = "s\<lparr>tica_output := (tica_output s)(l \<mapsto> a(p \<mapsto> ?out)),
                 tica_concatenated := (tica_concatenated s)(l \<mapsto> c(p \<mapsto> cc))\<rparr>"
    let ?s2' = "?s2\<lparr>tica_output := (tica_output ?s2)(l \<mapsto> a'(p \<mapsto> ?out)),
                 tica_concatenated := (tica_concatenated ?s2)(l \<mapsto> c'(p \<mapsto> cc))\<rparr>"
    have l: "calculateTICA_proteins lib l m (pa # d) (s\<lparr>tica_output := (tica_output s)(l \<mapsto> a'),
          tica_concatenated := (tica_concatenated s)(l \<mapsto> c')\<rparr>) = calculateTICA_proteins lib l m d ?s2'"
      using Inr by (simp add: pa Let_def)
    have r: "calculateTICA_proteins lib l m (pa # d) s = calculateTICA_proteins lib l m d ?s2"
      using Inr Cons.prems(1,2) by (simp add: pa Let_def)
    have step: "map_sum fst id (calculateTICA_proteins lib l m d ?s2')
        = map_sum fst id (calculateTICA_proteins lib l m d ?s2)"
    proof (rule Cons.IH[where a = "a(p \<mapsto> ?out)" and c = "c(p \<mapsto> cc)"])
      show "tica_output ?s2 l = Some (a(p \<mapsto> ?out))" by simp
      show "tica_concatenated ?s2 l = Some (c(p \<mapsto> cc))" by simp
      show "\<forall>q. q \<notin> fst ` set d \<longrightarrow> (a'(p \<mapsto> ?out)) q = (a(p \<mapsto> ?out)) q \<and> (c'(p \<mapsto> cc)) q = (c(p \<mapsto> cc)) q"
        using Cons.prems(3) by (auto simp: pa)
    qed
    show ?thesis unfolding l r by (rule step)
  qed
qed

lemma calculateTICA_refit:
  assumes first: "calculateTICA lib s ligand t1 = Inr s1"
  shows "map_sum fst id (calculateTICA lib s1 ligand t2) = map_sum fst id (calculateTICA lib s ligand t2)"
proof -
  from first obtain pooled where pooled: "all_data s ligand = Some pooled"
    by (auto simp: calculateTICA_def split: option.splits)
  define m1 where "m1 = tica lib pooled t1"
  from first pooled obtain c1 where c1: "concatenate (get_output lib m1) = Inr c1"
    by (auto simp: calculateTICA_def m1_def Let_def split: sum.splits)
  from first pooled c1 obtain d where d: "data s ligand = Some d"
    by (auto simp: calculateTICA_def m1_def Let_def split: option.splits if_splits)
  define a where "a = (case tica_output s ligand of None \<Rightarrow> Map.empty | Some x \<Rightarrow> x)"
  define c where "c = (case tica_concatenated s ligand of None \<Rightarrow> Map.empty | Some x \<Rightarrow> x)"
  define pre where "pre = (\<lambda>m cc.
      s\<lparr>all_tica := (all_tica s)(ligand \<mapsto> m),
         all_tica_output := (all_tica_output s)(ligand \<mapsto> get_output lib m),
         all_tica_concatenated := (all_tica_concatenated s)(ligand \<mapsto> cc),
         ndims := Some (shape1 cc),
         tica_output := (tica_output s)(ligand \<mapsto> a),
         tica_concatenated := (tica_concatenated s)(ligand \<mapsto> c)\<rparr>)"
  have unfold: "calculateTICA lib s ligand t = calculateTICA_proteins lib ligand m d (pre m cc)"
    if "m = tica lib pooled t" "concatenate (get_output lib m) = Inr cc" for t m cc
    using pooled d that
    by (auto simp: calculateTICA_def Let_def pre_def a_def c_def fun_upd_idem split: option.splits)
  have run1: "calculateTICA_proteins lib ligand m1 d (pre m1 c1) = Inr s1"
    using unfold[OF m1_def c1] first by simp
  have a1: "tica_output (pre m1 c1) ligand = Some a" "tica_concatenated (pre m1 c1) ligand = Some c"
    by (simp_all add: pre_def)
  from calculateTICA_proteins_shape[OF run1 a1] obtain a' c' where
    to: "tica_output s1 = (tica_output s)(ligand \<mapsto> a')" and
    tc: "tica_concatenated s1 = (tica_concatenated s)(ligand \<mapsto> c')" and
    off: "\<forall>p. p \<notin> fst ` set d \<longrightarrow> a' p = a p \<and> c' p = c p"
    by (auto simp: pre_def)
  have s1: "s1 = (pre m1 c1)\<lparr>tica_output := (tica_output s)(ligand \<mapsto> a'),
       tica_concatenated := (tica_concatenated s)(ligand \<mapsto> c')\<rparr>"
    using calculateTICA_proteins_frame[OF run1] to tc by simp
  define m2 where "m2 = tica lib pooled t2"
  show ?thesis
  proof (cases "concatenate (get_output lib m2)")
    case (Inl err)
    then show ?thesis
      using pooled by (simp add: s1 calculateTICA_def m2_def Let_def pre_def)
  next
    case (Inr c2)
    have facts: "all_data s1 ligand = Some pooled" "data s1 ligand = Some d"
      "tica_output s1 ligand = Some a'" "tica_concatenated s1 ligand = Some c'"
      using pooled d by (simp_all add: s1 pre_def)
    have l0: "calculateTICA lib s1 ligand t2 = calculateTICA_proteins lib ligand m2 d
        (s1\<lparr>all_tica := (all_tica s1)(ligand \<mapsto> m2),
            all_tica_output := (all_tica_output s1)(ligand \<mapsto> get_output lib m2),
            all_tica_concatenated := (all_tica_concatenated s1)(ligand \<mapsto> c2),
            ndims := Some (shape1 c2)\<rparr>)"
      using facts Inr
      by (simp add: calculateTICA_def m2_def[symmetric] Let_def)
    have "s1\<lparr>all_tica := (all_tica s1)(ligand \<mapsto> m2),
            all_tica_output := (all_tica_output s1)(ligand \<mapsto> get_output lib m2),
            all_tica_concatenated := (all_tica_concatenated s1)(ligand \<mapsto> c2),
            ndims := Some (shape1 c2)\<rparr>
        = (pre m2 c2)\<lparr>tica_output := (tica_output (pre m2 c2))(ligand \<mapsto> a'),
           tica_concatenated := (tica_concatenated (pre m2 c2))(ligand \<mapsto> c')\<rparr>"
      by (rule ligand_msm.equality) (simp_all add: s1 pre_def)
    with l0 have l: "calculateTICA lib s1 ligand t2 = calculateTICA_proteins lib ligand m2 d
        ((pre m2 c2)\<lparr>tica_output := (tica_output (pre m2 c2))(ligand \<mapsto> a'),
           tica_concatenated := (tica_concatenated (pre m2 c2))(ligand \<mapsto> c')\<rparr>)"
      by simp
    have r: "calculateTICA lib s ligand t2 = calculateTICA_proteins lib ligand m2 d (pre m2 c2)"
      by (rule unfold[OF m2_def Inr])
    have step: "map_sum fst id (calculateTICA_proteins lib ligand m2 d
        ((pre m2 c2)\<lparr>tica_output := (tica_output (pre m2 c2))(ligand \<mapsto> a'),
           tica_concatenated := (tica_concatenated (pre m2 c2))(ligand \<mapsto> c')\<rparr>))
       = map_sum fst id (calculateTICA_proteins lib ligand m2 d (pre m2 c2))"
    proof (rule calculateTICA_proteins_agree[where a = a and c = c])
      show "tica_output (pre m2 c2) ligand = Some a" by (simp add: pre_def)
      show "tica_concatenated (pre m2 c2) ligand = Some c" by (simp add: pre_def)
      show "\<forall>p. p \<notin> fst ` set d \<longrightarrow> a' p = a p \<and> c' p = c p" by (rule off)
    qed
    show ?thesis unfolding l r by (rule step)
  qed
qed


text \<open>
  C6. When \<^verbatim>\<open>calculateTICA(ligand, t1)\<close> has returned, \<^verbatim>\<open>calculateTICA(ligand, t2)\<close> run next ends
  as a single \<^verbatim>\<open>calculateTICA(ligand, t2)\<close> run in place of the two would: it raises the same
  exception, or it returns the very same state (fitted model, outputs, concatenations, \<open>ndims\<close>
  and everything else), so nothing of the first fit is kept.
\<close>

theorem calculateTICA_overwrites:
  "calculateTICA lib s ligand t1 = Inr s1 \<Longrightarrow>
     map_sum fst id (calculateTICA lib s1 ligand t2) = map_sum fst id (calculateTICA lib s ligand t2)"
  by (rule calculateTICA_refit)

lemmas example_simps =
  calculateTICA_def concatenate_def example_library_def keep_columns_def loaded_state_def
  example_array_def Let_def

theorem calculateTICA_overwrites_witness:
  "\<exists>s1 s2. calculateTICA example_library loaded_state ''L'' 1 = Inr s1
     \<and> calculateTICA example_library s1 ''L'' 2 = Inr s2
     \<and> calculateTICA example_library loaded_state ''L'' 2 = Inr s2
     \<and> ndims s1 = Some 1 \<and> ndims s2 = Some 2"
proof -
  obtain s1 where s1: "calculateTICA example_library loaded_state ''L'' 1 = Inr s1"
    by (simp add: example_simps)
  obtain s2 where s2: "calculateTICA example_library loaded_state ''L'' 2 = Inr s2"
    by (simp add: example_simps)
  have n1: "ndims s1 = Some 1" using s1 by (auto simp: example_simps)
  have n2: "ndims s2 = Some 2" using s2 by (auto simp: example_simps)
  from calculateTICA_overwrites[OF s1, of 2] s2
  have "calculateTICA example_library s1 ''L'' 2 = Inr s2"
    by (cases "calculateTICA example_library s1 ''L'' 2") simp_all
  with s1 s2 n1 n2 show ?thesis by blast
qed

lemma calculateTICA_returned:
  assumes run: "calculateTICA lib s l t = Inr s'"
  shows "\<exists>pooled c. all_data s l = Some pooled
           \<and> concatenate (get_output lib (tica lib pooled t)) = Inr c
           \<and> all_tica s' = (all_tica s)(l \<mapsto> tica lib pooled t)
           \<and> all_tica_output s' = (all_tica_output s)(l \<mapsto> get_output lib (tica lib pooled t))
           \<and> all_tica_concatenated s' = (all_tica_concatenated s)(l \<mapsto> c)
           \<and> ndims s' = Some (shape1 c)
           \<and> all_data s' = all_data s \<and> data s' = data s"
proof -
  from run obtain pooled where pooled: "all_data s l = Some pooled"
    by (auto simp: calculateTICA_def split: option.splits)
  from run pooled obtain c where c: "concatenate (get_output lib (tica lib pooled t)) = Inr c"
    by (auto simp: calculateTICA_def Let_def split: sum.splits)
  from run pooled c obtain d s6 where ctp: "calculateTICA_proteins lib l (tica lib pooled t) d s6 = Inr s'"
    and s6: "all_tica s6 = (all_tica s)(l \<mapsto> tica lib pooled t)"
      "all_tica_output s6 = (all_tica_output s)(l \<mapsto> get_output lib (tica lib pooled t))"
      "all_tica_concatenated s6 = (all_tica_concatenated s)(l \<mapsto> c)" "ndims s6 = Some (shape1 c)"
      "all_data s6 = all_data s" "data s6 = data s"
    by (auto simp: calculateTICA_def Let_def split: option.splits if_splits)
  have eq: "s' = s6\<lparr>tica_output := tica_output s', tica_concatenated := tica_concatenated s'\<rparr>"
    by (rule calculateTICA_proteins_frame[OF ctp])
  have "all_tica s' = all_tica s6" "all_tica_output s' = all_tica_output s6"
    "all_tica_concatenated s' = all_tica_concatenated s6" "ndims s' = ndims s6"
    "all_data s' = all_data s6" "data s' = data s6"
    by (subst eq, simp)+
  with pooled c s6 show ?thesis by simp
qed

lemma calculateTICA_proteins_returns:
  "\<forall>pa \<in> set d. \<exists>c. concatenate (transform lib m (snd pa)) = Inr c \<Longrightarrow>
     \<exists>s'. calculateTICA_proteins lib l m d s = Inr s'"
proof (induction d arbitrary: s)
  case Nil
  then show ?case by simp
next
  case (Cons pa d)
  obtain p a where pa: "pa = (p, a)" by (cases pa)
  from Cons.prems obtain c where c: "concatenate (transform lib m a) = Inr c"
    by (auto simp: pa)
  from Cons.prems have "\<forall>pa \<in> set d. \<exists>c. concatenate (transform lib m (snd pa)) = Inr c" by simp
  from Cons.IH[OF this] show ?case by (simp add: pa c Let_def)
qed

lemma calculateTICA_returns:
  assumes "all_data s l = Some pooled"
    and "concatenate (get_output lib (tica lib pooled t)) = Inr c"
    and "data s l = Some d"
    and "\<forall>pa \<in> set d. \<exists>c. concatenate (transform lib (tica lib pooled t) (snd pa)) = Inr c"
  shows "\<exists>s'. calculateTICA lib s l t = Inr s'"
  using assms(1-3) calculateTICA_proteins_returns[OF assms(4)]
  by (simp add: calculateTICA_def Let_def)

text \<open>
  C9. \<open>ndims\<close> is one attribute of the instance, not an entry per ligand. A call for \<open>l1\<close> that
  returns stores the column count of the pooled output of \<open>l1\<close>; a later call for another ligand
  \<open>l2\<close> leaves the pooled output of \<open>l1\<close> as it was and stores the column count of the pooled
  output of \<open>l2\<close> in the same attribute, whatever the column count for \<open>l1\<close> is.
\<close>

theorem ndims_instance_wide:
  assumes "calculateTICA lib s l1 t1 = Inr s1"
    and "calculateTICA lib s1 l2 t2 = Inr s2"
    and "l1 \<noteq> l2"
  shows "\<exists>c1 c2. all_tica_concatenated s1 l1 = Some c1 \<and> ndims s1 = Some (shape1 c1)
           \<and> all_tica_concatenated s2 l1 = Some c1
           \<and> all_tica_concatenated s2 l2 = Some c2 \<and> ndims s2 = Some (shape1 c2)"
  using calculateTICA_returned[OF assms(1)] calculateTICA_returned[OF assms(2)] assms(3)
  by auto

lemma example_fit:
  "concatenate (get_output example_library (tica example_library [example_array] 1))
     = Inr \<lparr>shape1 = 1, cells = [[1], [4]]\<rparr>"
  "concatenate (get_output example_library (tica example_library [example_array] 2))
     = Inr \<lparr>shape1 = 2, cells = [[1, 2], [4, 5]]\<rparr>"
  "concatenate (transform example_library (tica example_library [example_array] 2) [example_array])
     = Inr \<lparr>shape1 = 2, cells = [[1, 2], [4, 5]]\<rparr>"
  by (simp_all add: concatenate_def example_library_def keep_columns_def example_array_def)

theorem ndims_instance_wide_witness:
  "\<exists>s1 s2. calculateTICA example_library loaded_state ''L'' 1 = Inr s1
     \<and> calculateTICA example_library s1 ''M'' 2 = Inr s2
     \<and> all_tica_concatenated s2 ''L'' = Some \<lparr>shape1 = 1, cells = [[1], [4]]\<rparr>
     \<and> all_tica_concatenated s2 ''M'' = Some \<lparr>shape1 = 2, cells = [[1, 2], [4, 5]]\<rparr>
     \<and> ndims s1 = Some 1 \<and> ndims s2 = Some 2"
proof -
  obtain s1 where s1: "calculateTICA example_library loaded_state ''L'' 1 = Inr s1"
    by (simp add: example_simps)
  from calculateTICA_returned[OF s1]
  have k: "all_data s1 = all_data loaded_state" "data s1 = data loaded_state"
    and c1: "all_tica_concatenated s1 ''L'' = Some \<lparr>shape1 = 1, cells = [[1], [4]]\<rparr>"
    by (auto simp: loaded_state_def example_fit)
  have "\<exists>s2. calculateTICA example_library s1 ''M'' 2 = Inr s2"
    by (rule calculateTICA_returns[where pooled = "[example_array]" and d = "[(''P1'', [example_array])]"])
      (simp_all add: k loaded_state_def example_fit)
  then obtain s2 where s2: "calculateTICA example_library s1 ''M'' 2 = Inr s2" ..
  from calculateTICA_returned[OF s2]
  have c2: "all_tica_concatenated s2 ''M'' = Some \<lparr>shape1 = 2, cells = [[1, 2], [4, 5]]\<rparr>"
    by (auto simp: k loaded_state_def example_fit)
  from ndims_instance_wide[OF s1 s2] c1 c2 s1 s2 show ?thesis by auto
qed

text \<open>
  C4. A feature string other than \<^verbatim>\<open>'positions'\<close> and \<^verbatim>\<open>'metrics'\<close> makes \<^verbatim>\<open>addFeature\<close> raise a
  value error whose message names the string and lists the two accepted values, and the state at
  the raise is the state before the call; for the two accepted values no value error is raised.
\<close>

theorem addFeature_unsupported:
  "(feature \<noteq> ''positions'' \<and> feature \<noteq> ''metrics'' \<longrightarrow>
      addFeature lib s feature ligand =
        Inl (ValueError (''Feature '' @ feature @ '' not implemented. try: ['positions', 'metrics']''), s))
   \<and> (feature = ''positions'' \<or> feature = ''metrics'' \<longrightarrow>
      (\<forall>msg s'. addFeature lib s feature ligand \<noteq> Inl (ValueError msg, s')))"
  by (auto simp: addFeature_def implemented_features_def not_implemented_message_def
      str_implemented_features_def split: option.splits)

theorem addFeature_unsupported_witness:
  "addFeature example_library aligned_state ''velocities'' ''L'' =
     Inl (ValueError ''Feature velocities not implemented. try: ['positions', 'metrics']'', aligned_state)
   \<and> (\<forall>msg s'. addFeature example_library aligned_state ''positions'' ''L'' \<noteq> Inl (ValueError msg, s'))
   \<and> (\<forall>msg s'. addFeature example_library aligned_state ''metrics'' ''L'' \<noteq> Inl (ValueError msg, s'))"
  using addFeature_unsupported[of "''velocities''" example_library aligned_state "''L''"]
    addFeature_unsupported[of "''positions''" example_library aligned_state "''L''"]
    addFeature_unsupported[of "''metrics''" example_library aligned_state "''L''"]
  by simp

section \<open>The lag-time sweep\<close>





section \<open>Plotting before fitting\<close>

lemma init_combinations_no_tica:
  "all_tica_concatenated (init_combinations lib combos s) = all_tica_concatenated s"
  by (induction combos arbitrary: s) (auto simp: Let_def split: prod.splits)

lemma init_no_tica: "all_tica_concatenated (init lib pa) l = None"
  by (simp add: init_def init_combinations_no_tica)

lemma addFeature_no_tica:
  "all_tica_concatenated (state_after (addFeature lib s feature l)) = all_tica_concatenated s"
  by (auto simp: state_after_def addFeature_def addFeature_metrics_def Let_def split: option.splits)

lemma getFeaturesData_proteins_no_tica:
  "all_tica_concatenated (state_after (getFeaturesData_proteins lib l ps s)) = all_tica_concatenated s"
proof (induction ps arbitrary: s)
  case Nil
  then show ?case by (simp add: state_after_def)
next
  case (Cons p ps)
  show ?case
    by (auto simp: Cons.IH set_data_def Let_def state_after_def[of "Inl _"]
        split: option.splits sum.splits prod.splits)
qed

lemma getFeaturesData_no_tica:
  "all_tica_concatenated (state_after (getFeaturesData lib s l)) = all_tica_concatenated s"
  by (simp add: getFeaturesData_def Let_def getFeaturesData_proteins_no_tica)

lemma calculateTICA_proteins_no_tica:
  "all_tica_concatenated (state_after (calculateTICA_proteins lib l m d s)) = all_tica_concatenated s"
proof (cases "calculateTICA_proteins lib l m d s")
  case (Inl es)
  obtain e s' where "es = (e, s')" by (cases es)
  with Inl calculateTICA_proteins_frame_error[of lib l m d s e s'] show ?thesis
    by (simp add: state_after_def)
      (metis ligand_msm.select_convs(13) ligand_msm.surjective ligand_msm.update_convs(8,9))
next
  case (Inr s')
  with calculateTICA_proteins_frame[of lib l m d s s'] show ?thesis
    by (simp add: state_after_def)
      (metis ligand_msm.select_convs(13) ligand_msm.surjective ligand_msm.update_convs(8,9))
qed

lemma calculateTICA_other_ligand:
  "l \<noteq> ligand \<Longrightarrow>
     all_tica_concatenated (state_after (calculateTICA lib s l t)) ligand = all_tica_concatenated s ligand"
  by (auto simp: calculateTICA_def Let_def calculateTICA_proteins_no_tica state_after_def[of "Inl _"]
      split: option.splits sum.splits)

lemma sweep_other_ligand:
  "l \<noteq> ligand \<Longrightarrow>
     all_tica_concatenated (state_after_plot (plotLagTimeVsTICADim_sweep lib l lts s a b)) ligand
       = all_tica_concatenated s ligand"
proof (induction lts arbitrary: s a b)
  case Nil
  then show ?case by (simp add: state_after_plot_def)
next
  case (Cons x lts)
  show ?case
  proof (cases "calculateTICA lib s l x")
    case (Inl es)
    with calculateTICA_other_ligand[OF Cons.prems, of lib s x] show ?thesis
      by (auto simp: state_after_plot_def state_after_def)
  next
    case (Inr s1)
    with calculateTICA_other_ligand[OF Cons.prems, of lib s x]
    have keep: "all_tica_concatenated s1 ligand = all_tica_concatenated s ligand"
      by (simp add: state_after_def)
    show ?thesis
    proof (cases "all_tica_concatenated s1 l")
      case None
      with Inr keep show ?thesis by (simp add: state_after_plot_def)
    next
      case (Some c)
      with Inr keep Cons.IH[OF Cons.prems, of s1] show ?thesis by simp
    qed
  qed
qed

lemma plotLagTimeVsTICADim_other_ligand:
  "l \<noteq> ligand \<Longrightarrow>
     all_tica_concatenated (state_after_plot (plotLagTimeVsTICADim lib s l n)) ligand
       = all_tica_concatenated s ligand"
  using sweep_other_ligand[of l ligand lib "[1..n]" s "[]" "[]"]
  by (auto simp: plotLagTimeVsTICADim_def state_after_plot_def split: sum.splits prod.splits)

lemma never_fitted_absent: "never_fitted lib ligand s \<Longrightarrow> all_tica_concatenated s ligand = None"
proof (induction rule: never_fitted.induct)
  case (constructed pa)
  then show ?case by (rule init_no_tica)
next
  case (after_addFeature s feature l)
  then show ?case by (simp add: addFeature_no_tica)
next
  case (after_getFeaturesData s l)
  then show ?case by (simp add: getFeaturesData_no_tica)
next
  case (after_calculateTICA s l lag_time)
  then show ?case by (simp add: calculateTICA_other_ligand)
next
  case (after_plotLagTimeVsTICADim s l max_lag_time)
  then show ?case by (simp add: plotLagTimeVsTICADim_other_ligand)
qed

lemma plotTICADensity_columns_absent:
  "all_tica_concatenated s ligand = None \<Longrightarrow> cols \<noteq> [] \<Longrightarrow>
     plotTICADensity_columns s ligand cols ic = Inl (KeyError (Key ligand), s)"
  by (cases cols) simp_all

lemma plotTICADensity_columns_state:
  "plotTICADensity_columns s ligand cols ic = Inl (e, s') \<Longrightarrow> s' = s"
  by (induction cols arbitrary: ic) (auto split: option.splits if_splits)

lemma run_plots_state: "state_after_plot (run_plots plt s made calls) = s"
  by (induction calls arbitrary: made) (simp_all add: state_after_plot_def split: option.splits)

text \<open>
  C8, as amended. On an instance on which \<^verbatim>\<open>calculateTICA\<close> was never run for the ligand:
  \<^verbatim>\<open>plotTICADistribution\<close> first calls \<^verbatim>\<open>plt.subplots\<close> with \<^verbatim>\<open>figsize=(12, max_tica)\<close>; when that call
  returns, the method raises the key error of the absent pooled-output entry, and when the
  library refuses the call, the library's exception. \<^verbatim>\<open>plotTICADensity\<close> raises that key error for
  every \<open>ndims \<ge> 1\<close>; with \<open>ndims \<le> 0\<close> the loop over \<^verbatim>\<open>range(ndims)\<close> never reads the mapping, and
  the method ends as its call \<^verbatim>\<open>plt.subplots(0, figsize=(7, 0))\<close> does. On every instance both
  methods leave the state as it was, whether they return or raise.
\<close>

theorem plots_before_fit:
  assumes "never_fitted lib ligand s"
  shows "plotTICADistribution plt s ligand max_tica =
           (case plt (Subplots 1 12 max_tica) of
              Some e \<Rightarrow> Inl (e, s)
            | None \<Rightarrow> Inl (KeyError (Key ligand), s))
     \<and> (1 \<le> n \<longrightarrow> plotTICADensity plt s ligand n = Inl (KeyError (Key ligand), s))
     \<and> (n \<le> 0 \<longrightarrow> plotTICADensity plt s ligand n =
           (case plt (Subplots 0 7 0) of
              Some e \<Rightarrow> Inl (e, s)
            | None \<Rightarrow> Inr (s, [Subplots 0 7 0])))
     \<and> state_after_plot (plotTICADistribution plt s0 l k) = s0
     \<and> state_after_plot (plotTICADensity plt s0 l k) = s0"
proof -
  from assms have absent: "all_tica_concatenated s ligand = None" by (rule never_fitted_absent)
  have "plotTICADistribution plt s ligand max_tica =
           (case plt (Subplots 1 12 max_tica) of
              Some e \<Rightarrow> Inl (e, s)
            | None \<Rightarrow> Inl (KeyError (Key ligand), s))"
    by (simp add: plotTICADistribution_def absent split: option.splits)
  moreover have "plotTICADensity plt s ligand n = Inl (KeyError (Key ligand), s)" if "1 \<le> n"
  proof -
    from that have "[0..<nat n] \<noteq> []" by simp
    from plotTICADensity_columns_absent[OF absent this] show ?thesis
      by (simp add: plotTICADensity_def)
  qed
  moreover have "plotTICADensity plt s ligand n =
           (case plt (Subplots 0 7 0) of
              Some e \<Rightarrow> Inl (e, s)
            | None \<Rightarrow> Inr (s, [Subplots 0 7 0]))" if "n \<le> 0"
    using that by (simp add: plotTICADensity_def combinations2_def split: option.splits)
  moreover have "state_after_plot (plotTICADistribution plt s0 l k) = s0"
    by (simp add: plotTICADistribution_def run_plots_state split: option.splits)
      (simp add: state_after_plot_def)
  moreover have "state_after_plot (plotTICADensity plt s0 l k) = s0"
  proof (cases "plotTICADensity_columns s0 l [0..<nat k] Map.empty")
    case (Inl es)
    obtain e s' where es: "es = (e, s')" by (cases es)
    with Inl plotTICADensity_columns_state[of s0 l "[0..<nat k]" Map.empty e s'] show ?thesis
      by (simp add: plotTICADensity_def state_after_plot_def)
  next
    case (Inr ic)
    then show ?thesis
      by (simp add: plotTICADensity_def Let_def run_plots_state del: run_plots.simps str_nat.simps)
  qed
  ultimately show ?thesis by blast
qed

theorem plots_before_fit_witness:
  "never_fitted example_library ''L'' (init example_library example_analysis)
   \<and> plotTICADistribution subplots_refusals (init example_library example_analysis) ''L'' 10
       = Inl (KeyError (Key ''L''), init example_library example_analysis)
   \<and> plotTICADensity subplots_refusals (init example_library example_analysis) ''L'' 4
       = Inl (KeyError (Key ''L''), init example_library example_analysis)
   \<and> plotTICADensity subplots_refusals (init example_library example_analysis) ''L'' 0
       = Inl (ValueError ''Number of rows must be a positive integer'',
              init example_library example_analysis)"
  using plots_before_fit[OF never_fitted.constructed[of example_library "''L''" example_analysis],
      where plt = subplots_refusals and max_tica = 10 and n = 4
        and ?s0.0 = loaded_state and l = "''L''" and k = 2]
    plots_before_fit[OF never_fitted.constructed[of example_library "''L''" example_analysis],
      where plt = subplots_refusals and max_tica = 10 and n = 0
        and ?s0.0 = loaded_state and l = "''L''" and k = 2]
    never_fitted.constructed[of example_library "''L''" example_analysis]
  by (simp add: subplots_refusals_def)

text \<open>
  C8 as stated fails: on a freshly constructed instance, with a plotting library that refuses
  what matplotlib refuses, \<^verbatim>\<open>plotTICADensity('L', ndims=0)\<close> and \<^verbatim>\<open>plotTICADistribution('L', -1)\<close> end
  with the value error of \<^verbatim>\<open>plt.subplots\<close>, not with a key error: the first never reads the
  mapping, the second calls \<^verbatim>\<open>plt.subplots\<close> before it reads it.
\<close>

theorem plotTICADensity_counterexample:
  "never_fitted example_library ''L'' (init example_library example_analysis)
   \<and> plotTICADensity subplots_refusals (init example_library example_analysis) ''L'' 0
       = Inl (ValueError ''Number of rows must be a positive integer'',
              init example_library example_analysis)
   \<and> plotTICADistribution subplots_refusals (init example_library example_analysis) ''L'' (- 1)
       = Inl (ValueError ''figure size must be positive finite'',
              init example_library example_analysis)"
  by (simp add: never_fitted.constructed plotTICADensity_def plotTICADistribution_def
      combinations2_def subplots_refusals_def)

section \<open>Metric arrays\<close>

lemma getMetricData_trajectories_present:
  "metric \<in> set (columns pd) \<Longrightarrow>
     getMetricData_trajectories s pd metric ts acc =
       Inr (acc @ map (\<lambda>t. map (\<lambda>r. r_cell r metric) (filter (\<lambda>r. r_trajectory r = t) (trows pd))) ts)"
  by (induction ts arbitrary: acc) (simp_all add: column_to_numpy_def select_level_def)

lemma getMetricData_trajectories_absent:
  "metric \<notin> set (columns pd) \<Longrightarrow> ts \<noteq> [] \<Longrightarrow>
     getMetricData_trajectories s pd metric ts acc = Inl (KeyError (Key metric), s)"
  by (cases ts) (simp_all add: column_to_numpy_def select_level_def)

text \<open>
  C1, as amended. For a metric that is a column of the results table, \<^verbatim>\<open>getMetricData\<close> returns
  one 1-D array per value of the Trajectory level of the table's index (\<^verbatim>\<open>index.levels[3]\<close> of the
  ligand's rows, which keeps the values of the whole table), in the order of the level; the array
  at a value holds the metric of the rows of that ligand, protein and trajectory, in table order,
  so its length is the number of those rows. For a name that is not a column the first pass of
  the loop raises a key error and the state is untouched.
\<close>

theorem getMetricData_per_level:
  fixes s :: "('f, 'm) ligand_msm"
  defines "df \<equiv> pa_data (pele_analysis s)"
  shows "(metric \<in> set (columns df) \<longrightarrow>
           (\<exists>arrays. getMetricData s ligand protein metric = Inr arrays
              \<and> length arrays = length (trajectory_levels df)
              \<and> (\<forall>i < length arrays.
                    arrays ! i = map (\<lambda>r. r_cell r metric)
                      (filter (\<lambda>r. r_ligand r = ligand \<and> r_protein r = protein
                                  \<and> r_trajectory r = trajectory_levels df ! i) (trows df)))))
       \<and> (metric \<notin> set (columns df) \<and> trajectory_levels df \<noteq> [] \<longrightarrow>
           getMetricData s ligand protein metric = Inl (KeyError (Key metric), s))"
proof (intro conjI impI)
  assume m: "metric \<in> set (columns df)"
  have "getMetricData s ligand protein metric =
      Inr (map (\<lambda>t. map (\<lambda>r. r_cell r metric)
            (filter (\<lambda>r. r_ligand r = ligand \<and> r_protein r = protein \<and> r_trajectory r = t) (trows df)))
         (trajectory_levels df))"
    using m unfolding getMetricData_def Let_def df_def
    by (subst getMetricData_trajectories_present)
      (simp_all add: select_level_def)
  then show "\<exists>arrays. getMetricData s ligand protein metric = Inr arrays
              \<and> length arrays = length (trajectory_levels df)
              \<and> (\<forall>i < length arrays.
                    arrays ! i = map (\<lambda>r. r_cell r metric)
                      (filter (\<lambda>r. r_ligand r = ligand \<and> r_protein r = protein
                                  \<and> r_trajectory r = trajectory_levels df ! i) (trows df)))"
    by simp
next
  assume "metric \<notin> set (columns df) \<and> trajectory_levels df \<noteq> []"
  then show "getMetricData s ligand protein metric = Inl (KeyError (Key metric), s)"
    unfolding getMetricData_def Let_def df_def
    by (subst getMetricData_trajectories_absent) (simp_all add: select_level_def)
qed

lemma example_analysis_simps:
  "pele_combinations example_analysis = [(''P1'', ''L''), (''P2'', ''L'')]"
  "proteins example_analysis = [''P1'', ''P2'']"
  "pa_data example_analysis = example_frame"
  "getLigandTrajectoryPerTrajectory example_analysis p l =
     (if p = ''P1'' then [''P1_L_1.xtc'', ''P1_L_2.xtc''] else [''P2_L_1.xtc''], l @ ''.pdb'')"
  by (simp_all add: example_analysis_def)

lemma example_init:
  "init example_library example_analysis =
     \<lparr>pele_analysis = example_analysis,
      trajectories = [(''P1'', ''L'') \<mapsto> [''P1_L_1.xtc'', ''P1_L_2.xtc''],
                      (''P2'', ''L'') \<mapsto> [''P2_L_1.xtc'']],
      all_trajectories = [''P1_L_1.xtc'', ''P1_L_2.xtc'', ''P2_L_1.xtc''],
      topology = [''L'' \<mapsto> ''L.pdb''],
      ligand_atoms = [''L'' \<mapsto> [''C1'', ''O1'']],
      features = [''L'' \<mapsto> 0],
      data = Map.empty, tica_output = Map.empty, tica_concatenated = Map.empty,
      all_data = Map.empty, all_tica = Map.empty, all_tica_output = Map.empty,
      all_tica_concatenated = Map.empty, metric_features = Map.empty, ndims = None\<rparr>"
  by (simp add: init_def example_analysis_simps Let_def) (simp add: example_library_def)

theorem getMetricData_per_level_witness:
  "getMetricData (init example_library example_analysis) ''L'' ''P1'' ''metric_distance'' = Inr [[1], [2]]
   \<and> getMetricData (init example_library example_analysis) ''L'' ''P1'' ''metric_angle''
       = Inl (KeyError (Key ''metric_angle''), init example_library example_analysis)"
  using getMetricData_per_level[of "''metric_distance''" "init example_library example_analysis" "''L''" "''P1''"]
    getMetricData_per_level[of "''metric_angle''" "init example_library example_analysis" "''L''" "''P1''"]
  by (auto simp: example_init example_analysis_simps example_frame_def nth_Cons' list_eq_iff_nth_eq
      less_Suc_eq)

text \<open>
  C1 as stated fails: the pair \<open>(P2, L)\<close> has one trajectory (one file, one trajectory value among
  its rows), and \<^verbatim>\<open>getMetricData\<close> returns two arrays, the second one empty.
\<close>

theorem getMetricData_counterexample:
  "getMetricData (init example_library example_analysis) ''L'' ''P2'' ''metric_distance'' = Inr [[3], []]
   \<and> trajectories (init example_library example_analysis) (''P2'', ''L'') = Some [''P2_L_1.xtc'']
   \<and> map r_trajectory (filter (\<lambda>r. r_ligand r = ''L'' \<and> r_protein r = ''P2'')
        (trows (pa_data (pele_analysis (init example_library example_analysis))))) = [1]"
  by (simp add: example_init getMetricData_def select_level_def column_to_numpy_def
      example_analysis_simps example_frame_def)

section \<open>The free-energy surface\<close>

lemma np_min_Min:
  assumes "concat a \<noteq> []"
  shows "np_min a = Inr (Min (set (concat a)))"
proof (cases "concat a")
  case Nil
  with assms show ?thesis by blast
next
  case (Cons x xs)
  have "fold min xs x = Min (set (x # xs))" by (rule Min.set_eq_fold[symmetric])
  then show ?thesis unfolding np_min_def Cons by simp
qed

lemma free_energy_transpose:
  assumes "z \<noteq> []" and "\<forall>row \<in> set z. length row = n"
  shows "transpose (free_energy z)
    = map (\<lambda>j. map (\<lambda>i. - ln (z ! i ! j + 0.1)) [0..<length z]) [0..<n]"
proof -
  have "transpose (free_energy z)
      = map (\<lambda>j. map (\<lambda>i. free_energy z ! i ! j) [0..<length (free_energy z)]) [0..<n]"
    using assms by (intro transpose_rectangle) (auto simp: free_energy_def)
  also have "\<dots> = map (\<lambda>j. map (\<lambda>i. - ln (z ! i ! j + 0.1)) [0..<length z]) [0..<n]"
    using assms by (auto simp: free_energy_def)
  finally show ?thesis .
qed

text \<open>
  C5. For a histogram of \<open>length z\<close> rows and \<open>n > 0\<close> columns, the array handed to the Gaussian
  filter is the transpose of \<open>(- ln (count + 0.1)) * 0.592\<close> shifted by one constant, its entries
  are non-negative and one of them is zero; when all bin counts are equal, every entry is zero.
\<close>

theorem shifted_surface_minimum_zero:
  assumes "z \<noteq> []" and rect: "\<forall>row \<in> set z. length row = n" and "0 < n"
  shows "\<exists>surface m. shifted_surface z = Inr surface
     \<and> length surface = n \<and> (\<forall>j<n. length (surface ! j) = length z)
     \<and> (\<forall>i<length z. \<forall>j<n. surface ! j ! i = (- ln (z ! i ! j + 0.1)) * 0.592 - m * 0.592)
     \<and> (\<forall>i<length z. \<forall>j<n. 0 \<le> surface ! j ! i)
     \<and> (\<exists>i<length z. \<exists>j<n. surface ! j ! i = 0)
     \<and> ((\<forall>row \<in> set z. \<forall>count \<in> set row. count = c)
           \<longrightarrow> (\<forall>column \<in> set surface. \<forall>v \<in> set column. v = 0))"
proof -
  define ft where "ft = transpose (free_energy z)"
  have ft: "ft = map (\<lambda>j. map (\<lambda>i. - ln (z ! i ! j + 0.1)) [0..<length z]) [0..<n]"
    unfolding ft_def using assms(1) rect by (rule free_energy_transpose)
  define E where "E = {- ln (z ! i ! j + 0.1) | i j. i < length z \<and> j < n}"
  have setft: "set (concat ft) = E"
  proof
    show "set (concat ft) \<subseteq> E" by (auto simp: ft E_def) blast
    show "E \<subseteq> set (concat ft)" by (auto simp: ft E_def)
  qed
  from assms(1,3) have "- ln (z ! 0 ! 0 + 0.1) \<in> E" by (auto simp: E_def)
  then have ne: "E \<noteq> {}" by blast
  have fin: "finite E" unfolding setft[symmetric] by simp
  define m where "m = Min E"
  have nonempty: "concat ft \<noteq> []" using ne setft by (metis list.set(1))
  have min: "np_min ft = Inr m"
    unfolding m_def setft[symmetric] by (rule np_min_Min[OF nonempty])
  define surface where "surface = map (map (\<lambda>f. f * 0.592 - m * 0.592)) ft"
  have run: "shifted_surface z = Inr surface"
    by (simp add: shifted_surface_def Let_def ft_def[symmetric] min surface_def)
  have entry: "surface ! j ! i = (- ln (z ! i ! j + 0.1)) * 0.592 - m * 0.592"
    if "i < length z" "j < n" for i j
    using that by (simp add: surface_def ft)
  have lower: "m \<le> - ln (z ! i ! j + 0.1)" if "i < length z" "j < n" for i j
    unfolding m_def using fin that by (intro Min_le) (auto simp: E_def)
  have nonneg: "0 \<le> surface ! j ! i" if "i < length z" "j < n" for i j
  proof -
    have "0 \<le> (- ln (z ! i ! j + 0.1) - m) * 0.592"
      using lower[OF that] by (intro mult_nonneg_nonneg) simp_all
    then show ?thesis unfolding entry[OF that] by (simp only: left_diff_distrib)
  qed
  from Min_in[OF fin ne] obtain i0 j0 where a: "i0 < length z" "j0 < n"
    and m0: "m = - ln (z ! i0 ! j0 + 0.1)"
    by (auto simp: m_def E_def)
  have zero: "surface ! j0 ! i0 = 0"
    by (simp only: entry[OF a] m0[symmetric] diff_self)
  have flat: "\<forall>column \<in> set surface. \<forall>v \<in> set column. v = 0"
    if eq: "\<forall>row \<in> set z. \<forall>count \<in> set row. count = c"
  proof -
    have cell: "z ! i ! j = c" if "i < length z" "j < n" for i j
    proof -
      from that rect have "z ! i \<in> set z" "j < length (z ! i)" by auto
      with eq show ?thesis by (metis nth_mem)
    qed
    then have "E = {- ln (c + 0.1)}" using a by (auto simp: E_def)
    then have "m = - ln (c + 0.1)" by (simp add: m_def)
    then show ?thesis
      by (auto simp: surface_def ft cell)
  qed
  have "length surface = n" "\<forall>j<n. length (surface ! j) = length z"
    by (simp_all add: surface_def ft)
  with run entry nonneg zero a flat show ?thesis
    by (intro exI[of _ surface] exI[of _ m]) blast
qed

theorem shifted_surface_minimum_zero_witness:
  "\<exists>surface. shifted_surface [[7, 7], [7, 7], [7, 7]] = Inr surface
      \<and> length surface = 2 \<and> list_all (list_all (\<lambda>v. v = 0)) surface"
proof -
  let ?z = "[[7, 7], [7, 7], [7, 7::real]]"
  have h1: "?z \<noteq> []" by simp
  have h2: "\<forall>row \<in> set ?z. length row = 2" by simp
  have h3: "0 < (2::nat)" by simp
  have h4: "\<forall>row \<in> set ?z. \<forall>count \<in> set row. count = 7" by simp
  from shifted_surface_minimum_zero[OF h1 h2 h3, of 7]
  obtain surface where s: "shifted_surface ?z = Inr surface"
    and len: "length surface = 2"
    and flat: "(\<forall>row \<in> set ?z. \<forall>count \<in> set row. count = 7)
           \<longrightarrow> (\<forall>column \<in> set surface. \<forall>v \<in> set column. v = 0)"
    by (elim exE conjE)
  from flat h4 have "\<forall>column \<in> set surface. \<forall>v \<in> set column. v = 0" by (rule mp)
  then have "list_all (list_all (\<lambda>v. v = 0)) surface" by (simp add: list_all_iff)
  with s len show ?thesis by blast
qed

section \<open>What the loop of \<^verbatim>\<open>getFeaturesData\<close> computes\<close>

lemma getFeaturesData_proteins_Cons:
  "getFeaturesData_proteins lib l (p # ps) s =
     (case loaded_features lib s l p of
        Inl (e, None) \<Rightarrow> Inl (e, s)
      | Inl (e, Some d) \<Rightarrow> Inl (e, set_data s l p d)
      | Inr d \<Rightarrow> getFeaturesData_proteins lib l ps (pool s l p d))"
  by (auto simp: loaded_features_def pool_def set_data_def Let_def AList.update_last
      AList.update_conv' split: option.splits sum.splits prod.splits)

lemma loaded_features_cong:
  "trajectories s' = trajectories s \<Longrightarrow> features s' = features s \<Longrightarrow>
   metric_features s' = metric_features s \<Longrightarrow>
   loaded_features lib s' l p = loaded_features lib s l p"
  unfolding loaded_features_def by (auto split: option.splits)

lemma loaded_features_pool [simp]:
  "loaded_features lib (pool s l q d) l' p = loaded_features lib s l' p"
  by (rule loaded_features_cong) (simp_all add: pool_def set_data_def)

lemma fold_pool_loaded_features [simp]:
  "loaded_features lib (fold (\<lambda>q st. pool st l q (g q)) qs s) l' p = loaded_features lib s l' p"
  by (induction qs arbitrary: s) simp_all

lemma getFeaturesData_proteins_returns:
  "\<forall>p \<in> set ps. loaded_features lib s l p = Inr (g p) \<Longrightarrow>
     getFeaturesData_proteins lib l ps s = Inr (fold (\<lambda>p st. pool st l p (g p)) ps s)"
proof (induction ps arbitrary: s)
  case Nil
  then show ?case by simp
next
  case (Cons p ps)
  from Cons.prems have "\<forall>q \<in> set ps. loaded_features lib (pool s l p (g p)) l q = Inr (g q)"
    by simp
  from Cons.IH[OF this] Cons.prems show ?case
    by (simp add: getFeaturesData_proteins_Cons del: getFeaturesData_proteins.simps)
qed

lemma getFeaturesData_proteins_returned:
  "getFeaturesData_proteins lib l ps s = Inr s' \<Longrightarrow>
     \<exists>g. (\<forall>p \<in> set ps. loaded_features lib s l p = Inr (g p))
        \<and> s' = fold (\<lambda>p st. pool st l p (g p)) ps s"
proof (induction ps arbitrary: s)
  case Nil
  then show ?case by simp
next
  case (Cons p ps)
  from Cons.prems obtain d where d: "loaded_features lib s l p = Inr d"
    and rest: "getFeaturesData_proteins lib l ps (pool s l p d) = Inr s'"
    by (auto simp: getFeaturesData_proteins_Cons simp del: getFeaturesData_proteins.simps
        split: sum.splits prod.splits option.splits)
  from Cons.IH[OF rest] obtain g where
    g: "\<forall>q \<in> set ps. loaded_features lib s l q = Inr (g q)"
    and s': "s' = fold (\<lambda>p st. pool st l p (g p)) ps (pool s l p d)"
    by auto
  have "g p = d" if "p \<in> set ps" using g d that by auto
  then have eq: "fold (\<lambda>q st. pool st l q (g q)) ps (pool s l p d)
      = fold (\<lambda>q st. pool st l q ((g(p := d)) q)) ps (pool s l p d)"
    by (intro fold_cong) auto
  show ?case
    by (rule exI[of _ "g(p := d)"]) (use g d s' eq in auto)
qed


text \<open>The effect of the passes that complete, field by field.\<close>

lemma fold_pool_fields:
  assumes "data s l = Some d0" and "all_data s l = Some a0"
  shows "fold (\<lambda>p st. pool st l p (g p)) ps s =
     s\<lparr>data := (data s)(l \<mapsto> fold (\<lambda>p. AList.update p (g p)) ps d0),
       all_data := (all_data s)(l \<mapsto> a0 @ concat (map g ps))\<rparr>"
  using assms
proof (induction ps arbitrary: s d0 a0)
  case Nil
  then have "(data s)(l \<mapsto> d0) = data s" "(all_data s)(l \<mapsto> a0) = all_data s"
    by (simp_all add: fun_upd_idem)
  then show ?case by simp
next
  case (Cons p ps)
  have "data (pool s l p (g p)) l = Some (AList.update p (g p) d0)"
    "all_data (pool s l p (g p)) l = Some (a0 @ g p)"
    using Cons.prems by (simp_all add: pool_def set_data_def)
  note ih = Cons.IH[OF this]
  have "fold (\<lambda>p st. pool st l p (g p)) (p # ps) s
      = fold (\<lambda>p st. pool st l p (g p)) ps (pool s l p (g p))" by simp
  also have "\<dots> =
     (pool s l p (g p))\<lparr>data := (data (pool s l p (g p)))(l \<mapsto>
          fold (\<lambda>p. AList.update p (g p)) ps (AList.update p (g p) d0)),
       all_data := (all_data (pool s l p (g p)))(l \<mapsto> (a0 @ g p) @ concat (map g ps))\<rparr>"
    by (rule ih)
  also have "\<dots> = s\<lparr>data := (data s)(l \<mapsto> fold (\<lambda>p. AList.update p (g p)) (p # ps) d0),
       all_data := (all_data s)(l \<mapsto> a0 @ concat (map g (p # ps)))\<rparr>"
    by (rule ligand_msm.equality) (simp_all add: pool_def set_data_def)
  finally show ?case .
qed

lemma fold_update_other:
  "p \<notin> set ps \<Longrightarrow> map_of (fold (\<lambda>p. AList.update p (g p)) ps d) p = map_of d p"
  by (induction ps arbitrary: d) (simp_all add: AList.update_conv')

lemma fold_update_lookup:
  "p \<in> set ps \<Longrightarrow> map_of (fold (\<lambda>p. AList.update p (g p)) ps d) p = Some (g p)"
proof (induction ps arbitrary: d)
  case Nil
  then show ?case by simp
next
  case (Cons q ps)
  show ?case
  proof (cases "p \<in> set ps")
    case True
    then show ?thesis by (simp add: Cons.IH)
  next
    case False
    with Cons.prems have "p = q" by simp
    with False show ?thesis by (simp add: fold_update_other AList.update_conv')
  qed
qed

lemma fold_update_idem:
  "\<forall>p \<in> set ps. map_of d p = Some (g p) \<Longrightarrow> fold (\<lambda>p. AList.update p (g p)) ps d = d"
  by (induction ps arbitrary: d) (simp_all add: AList.update_triv)







section \<open>The alignment assertion\<close>

lemma getFeaturesData_unfold:
  "\<exists>s0 d0 a0. getFeaturesData lib s l = getFeaturesData_proteins lib l (proteins (pele_analysis s)) s0
      \<and> data s0 l = Some d0 \<and> all_data s0 l = Some a0
      \<and> d0 = (case data s l of None \<Rightarrow> [] | Some d \<Rightarrow> d)
      \<and> a0 = (case all_data s l of None \<Rightarrow> [] | Some a \<Rightarrow> a)
      \<and> s0 = s\<lparr>data := (data s)(l \<mapsto> d0), all_data := (all_data s)(l \<mapsto> a0)\<rparr>"
proof -
  have d: "(data s)(l \<mapsto> d) = data s" if "data s l = Some d" for d
    using that by (simp add: fun_upd_idem)
  have a: "(all_data s)(l \<mapsto> a) = all_data s" if "all_data s l = Some a" for a
    using that by (simp add: fun_upd_idem)
  show ?thesis
    by (cases "data s l"; cases "all_data s l") (simp_all add: getFeaturesData_def Let_def d a)
qed






section \<open>Calling twice\<close>

lemma addFeature_proteins_lookup:
  "distinct ps \<Longrightarrow>
     addFeature_proteins metrics ld ps mf p =
       (if p \<in> set ps
        then Some ((case mf p of None \<Rightarrow> [] | Some a \<Rightarrow> a)
                   @ trajectory_arrays metrics ld (select_level r_protein p ld))
        else mf p)"
  by (induction ps arbitrary: mf) (auto simp: Let_def)

lemma addFeature_metrics_fields:
  "addFeature lib s ''metrics'' l = Inr (addFeature_metrics s l)"
  "pele_analysis (addFeature_metrics s l) = pele_analysis s"
  "metric_features (addFeature_metrics s l) l =
     Some (addFeature_proteins (metric_columns (pa_data (pele_analysis s)))
             (select_level r_ligand l (pa_data (pele_analysis s))) (proteins (pele_analysis s))
             (case metric_features s l of None \<Rightarrow> Map.empty | Some m \<Rightarrow> m))"
  by (simp_all add: addFeature_def implemented_features_def addFeature_metrics_def Let_def)

lemma addFeature_metrics_twice:
  "addFeature_metrics (addFeature_metrics s l) l =
     (addFeature_metrics s l)\<lparr>metric_features := metric_features (addFeature_metrics (addFeature_metrics s l) l)\<rparr>"
  by (simp add: addFeature_metrics_def Let_def)

lemma getFeaturesData_again:
  assumes first: "getFeaturesData lib s l = Inr t1"
  shows "\<exists>t2 new m. getFeaturesData lib t1 l = Inr t2
      \<and> all_data t1 l = Some ((case all_data s l of None \<Rightarrow> [] | Some a \<Rightarrow> a) @ new)
      \<and> all_data t2 l = Some ((case all_data s l of None \<Rightarrow> [] | Some a \<Rightarrow> a) @ new @ new)
      \<and> data t1 l = Some m
      \<and> new = concat (map (\<lambda>p. case map_of m p of None \<Rightarrow> [] | Some a \<Rightarrow> a) (proteins (pele_analysis s)))
      \<and> t2 = t1\<lparr>all_data := all_data t2\<rparr>"
proof -
  let ?ps = "proteins (pele_analysis s)"
  from getFeaturesData_unfold[of lib s l] obtain s0 d0 a0 where
    run: "getFeaturesData lib s l = getFeaturesData_proteins lib l ?ps s0"
    and d0: "data s0 l = Some d0" and a0: "all_data s0 l = Some a0"
    and a0_def: "a0 = (case all_data s l of None \<Rightarrow> [] | Some a \<Rightarrow> a)"
    and s0: "s0 = s\<lparr>data := (data s)(l \<mapsto> d0), all_data := (all_data s)(l \<mapsto> a0)\<rparr>"
    by blast
  from first run getFeaturesData_proteins_returned[of lib l ?ps s0 t1] obtain g where
    g: "\<forall>p \<in> set ?ps. loaded_features lib s0 l p = Inr (g p)"
    and t1: "t1 = fold (\<lambda>p st. pool st l p (g p)) ?ps s0"
    by auto
  let ?D = "fold (\<lambda>p. AList.update p (g p)) ?ps d0"
  let ?G = "concat (map g ?ps)"
  have t1': "t1 = s0\<lparr>data := (data s0)(l \<mapsto> ?D), all_data := (all_data s0)(l \<mapsto> a0 @ ?G)\<rparr>"
    unfolding t1 by (rule fold_pool_fields[OF d0 a0])
  have f1: "data t1 l = Some ?D" "all_data t1 l = Some (a0 @ ?G)" "pele_analysis t1 = pele_analysis s"
    by (simp_all add: t1' s0)
  from getFeaturesData_unfold[of lib t1 l] f1 obtain u0 where
    run2: "getFeaturesData lib t1 l = getFeaturesData_proteins lib l ?ps u0"
    and u0: "u0 = t1\<lparr>data := (data t1)(l \<mapsto> ?D), all_data := (all_data t1)(l \<mapsto> a0 @ ?G)\<rparr>"
    by auto
  have u0_t1: "u0 = t1"
    unfolding u0 using f1(1,2) by (simp add: fun_upd_idem)
  have g2: "\<forall>p \<in> set ?ps. loaded_features lib t1 l p = Inr (g p)"
  proof
    fix p assume "p \<in> set ?ps"
    with g have "loaded_features lib s0 l p = Inr (g p)" by blast
    moreover have "loaded_features lib t1 l p = loaded_features lib s0 l p"
      by (rule loaded_features_cong) (simp_all add: t1')
    ultimately show "loaded_features lib t1 l p = Inr (g p)" by simp
  qed
  let ?t2 = "fold (\<lambda>p st. pool st l p (g p)) ?ps t1"
  have r2: "getFeaturesData lib t1 l = Inr ?t2"
    unfolding run2 u0_t1 by (rule getFeaturesData_proteins_returns[OF g2])
  have idem: "fold (\<lambda>p. AList.update p (g p)) ?ps ?D = ?D"
    by (rule fold_update_idem) (simp add: fold_update_lookup)
  have t2: "?t2 = t1\<lparr>data := (data t1)(l \<mapsto> ?D), all_data := (all_data t1)(l \<mapsto> (a0 @ ?G) @ ?G)\<rparr>"
    using fold_pool_fields[OF f1(1,2), of g ?ps] by (simp only: idem)
  have t2_all: "all_data ?t2 l = Some (a0 @ ?G @ ?G)"
    by (subst t2) simp
  have t2_eq: "?t2 = t1\<lparr>all_data := all_data ?t2\<rparr>"
    by (subst (1 2) t2, rule ligand_msm.equality) (simp_all add: f1 fun_upd_idem)
  have new: "?G = concat (map (\<lambda>p. case map_of ?D p of None \<Rightarrow> [] | Some a \<Rightarrow> a) ?ps)"
    by (rule arg_cong[where f = concat], rule map_cong) (simp_all add: fold_update_lookup)
  show ?thesis
    using r2 f1(1,2) t2_all t2_eq new unfolding a0_def
    by (intro exI[of _ ?t2] exI[of _ ?G] exI[of _ ?D]) simp
qed

text \<open>
  C2, as amended. Re-invocation is not idempotent. With the proteins pairwise distinct, a second
  \<^verbatim>\<open>addFeature('metrics', ligand)\<close> appends the metric arrays of every protein once more to
  \<^verbatim>\<open>metric_features[ligand][protein]\<close> and changes nothing else. When \<^verbatim>\<open>getFeaturesData(ligand)\<close> has
  returned, a second call returns too, leaves \<^verbatim>\<open>data\<close> and every other attribute as the first
  call left them, and appends the arrays of all proteins once more to \<^verbatim>\<open>all_data[ligand]\<close>.
\<close>

theorem reinvocation_appends:
  assumes "distinct (proteins (pele_analysis s))"
  shows "(\<exists>s1 s2 m1 m2. addFeature lib s ''metrics'' ligand = Inr s1
            \<and> addFeature lib s1 ''metrics'' ligand = Inr s2
            \<and> metric_features s1 ligand = Some m1 \<and> metric_features s2 ligand = Some m2
            \<and> (\<forall>p \<in> set (proteins (pele_analysis s)). \<exists>old new.
                  m1 p = Some (old @ new) \<and> m2 p = Some (old @ new @ new)
                  \<and> length new = length (trajectory_levels (pa_data (pele_analysis s))))
            \<and> s2 = s1\<lparr>metric_features := metric_features s2\<rparr>)
     \<and> (\<forall>t1. getFeaturesData lib s ligand = Inr t1 \<longrightarrow>
           (\<exists>t2 new m. getFeaturesData lib t1 ligand = Inr t2
              \<and> all_data t1 ligand = Some ((case all_data s ligand of None \<Rightarrow> [] | Some a \<Rightarrow> a) @ new)
              \<and> all_data t2 ligand = Some ((case all_data s ligand of None \<Rightarrow> [] | Some a \<Rightarrow> a) @ new @ new)
              \<and> data t1 ligand = Some m
              \<and> new = concat (map (\<lambda>p. case map_of m p of None \<Rightarrow> [] | Some a \<Rightarrow> a)
                                (proteins (pele_analysis s)))
              \<and> t2 = t1\<lparr>all_data := all_data t2\<rparr>))"
proof (intro conjI allI impI)
  let ?s1 = "addFeature_metrics s ligand"
  let ?s2 = "addFeature_metrics ?s1 ligand"
  let ?ps = "proteins (pele_analysis s)"
  let ?metrics = "metric_columns (pa_data (pele_analysis s))"
  let ?ld = "select_level r_ligand ligand (pa_data (pele_analysis s))"
  let ?mf0 = "case metric_features s ligand of None \<Rightarrow> Map.empty | Some m \<Rightarrow> m"
  let ?m1 = "addFeature_proteins ?metrics ?ld ?ps ?mf0"
  let ?m2 = "addFeature_proteins ?metrics ?ld ?ps ?m1"
  have m1: "metric_features ?s1 ligand = Some ?m1" by (rule addFeature_metrics_fields(3))
  have m2: "metric_features ?s2 ligand = Some ?m2"
    by (simp add: addFeature_metrics_fields(3)[of ?s1] addFeature_metrics_fields(2) m1)
  have per: "\<exists>old new. ?m1 p = Some (old @ new) \<and> ?m2 p = Some (old @ new @ new)
        \<and> length new = length (trajectory_levels (pa_data (pele_analysis s)))"
    if "p \<in> set ?ps" for p
    using that assms
    by (intro exI[of _ "case ?mf0 p of None \<Rightarrow> [] | Some a \<Rightarrow> a"]
        exI[of _ "trajectory_arrays ?metrics ?ld (select_level r_protein p ?ld)"])
      (simp add: addFeature_proteins_lookup trajectory_arrays_def select_level_def)
  show "\<exists>s1 s2 m1 m2. addFeature lib s ''metrics'' ligand = Inr s1
            \<and> addFeature lib s1 ''metrics'' ligand = Inr s2
            \<and> metric_features s1 ligand = Some m1 \<and> metric_features s2 ligand = Some m2
            \<and> (\<forall>p \<in> set (proteins (pele_analysis s)). \<exists>old new.
                  m1 p = Some (old @ new) \<and> m2 p = Some (old @ new @ new)
                  \<and> length new = length (trajectory_levels (pa_data (pele_analysis s))))
            \<and> s2 = s1\<lparr>metric_features := metric_features s2\<rparr>"
    using m1 m2 per addFeature_metrics_twice[of s ligand]
    by (intro exI[of _ ?s1] exI[of _ ?s2] exI[of _ ?m1] exI[of _ ?m2])
      (simp add: addFeature_metrics_fields(1))
next
  fix t1 assume "getFeaturesData lib s ligand = Inr t1"
  then show "\<exists>t2 new m. getFeaturesData lib t1 ligand = Inr t2
              \<and> all_data t1 ligand = Some ((case all_data s ligand of None \<Rightarrow> [] | Some a \<Rightarrow> a) @ new)
              \<and> all_data t2 ligand = Some ((case all_data s ligand of None \<Rightarrow> [] | Some a \<Rightarrow> a) @ new @ new)
              \<and> data t1 ligand = Some m
              \<and> new = concat (map (\<lambda>p. case map_of m p of None \<Rightarrow> [] | Some a \<Rightarrow> a)
                                (proteins (pele_analysis s)))
              \<and> t2 = t1\<lparr>all_data := all_data t2\<rparr>"
    by (rule getFeaturesData_again)
qed

lemma example_load_length: "length (load example_library paths f) = length paths"
  by (simp add: example_library_def)

theorem reinvocation_appends_witness:
  "\<exists>s1 s2 m1 m2 old added t1 t2 new.
      addFeature example_library (init example_library example_analysis) ''metrics'' ''L'' = Inr s1
    \<and> addFeature example_library s1 ''metrics'' ''L'' = Inr s2
    \<and> metric_features s1 ''L'' = Some m1 \<and> metric_features s2 ''L'' = Some m2
    \<and> m1 ''P1'' = Some (old @ added) \<and> m2 ''P1'' = Some (old @ added @ added) \<and> length added = 2
    \<and> getFeaturesData example_library (init example_library example_analysis) ''L'' = Inr t1
    \<and> getFeaturesData example_library t1 ''L'' = Inr t2
    \<and> all_data t1 ''L'' = Some new \<and> all_data t2 ''L'' = Some (new @ new) \<and> length new = 3"
proof -
  let ?s = "init example_library example_analysis :: (nat, ndarray list \<times> nat) ligand_msm"
  have an: "pele_analysis ?s = example_analysis" "all_data ?s ''L'' = None"
    by (simp_all add: example_init)
  have d: "distinct (proteins (pele_analysis ?s))"
    by (simp add: an example_analysis_simps)
  note inst = reinvocation_appends[OF d, of example_library "''L''"]
  from inst obtain s1 s2 m1 m2 where
    a: "addFeature example_library ?s ''metrics'' ''L'' = Inr s1"
      "addFeature example_library s1 ''metrics'' ''L'' = Inr s2"
      "metric_features s1 ''L'' = Some m1" "metric_features s2 ''L'' = Some m2"
    and per: "\<forall>p \<in> set (proteins (pele_analysis ?s)). \<exists>old new.
                  m1 p = Some (old @ new) \<and> m2 p = Some (old @ new @ new)
                  \<and> length new = length (trajectory_levels (pa_data (pele_analysis ?s)))"
    by blast
  from per obtain old new where p1: "m1 ''P1'' = Some (old @ new)" "m2 ''P1'' = Some (old @ new @ new)"
    "length new = 2"
    by (auto simp: an example_analysis_simps example_frame_def)
  obtain t1 where t1: "getFeaturesData example_library ?s ''L'' = Inr t1"
    by (simp add: example_init getFeaturesData_def set_data_def Let_def example_analysis_simps)
  have len: "map_option length (all_data t1 ''L'') = Some 3"
    using t1
    by (auto simp: example_init getFeaturesData_def set_data_def Let_def example_analysis_simps
        example_load_length)
  from inst t1 obtain t2 new' where
    b: "getFeaturesData example_library t1 ''L'' = Inr t2"
      "all_data t1 ''L'' = Some ((case all_data ?s ''L'' of None \<Rightarrow> [] | Some a \<Rightarrow> a) @ new')"
      "all_data t2 ''L'' = Some ((case all_data ?s ''L'' of None \<Rightarrow> [] | Some a \<Rightarrow> a) @ new' @ new')"
    by blast
  from b len have "all_data t1 ''L'' = Some new'" "all_data t2 ''L'' = Some (new' @ new')"
    "length new' = 3"
    by (simp_all add: an)
  with a p1 t1 b(1) show ?thesis by blast
qed

text \<open>
  C2 as stated fails: on the small instance the metric list of \<open>P1\<close> has 2 arrays after one
  \<^verbatim>\<open>addFeature('metrics', 'L')\<close> and 4 after two, and the pooled list has 3 arrays after one
  \<^verbatim>\<open>getFeaturesData('L')\<close> and 6 after two.
\<close>

theorem reinvocation_counterexample:
  "map_option (\<lambda>m. map_option length (m ''P1''))
     (metric_features
        (state_after (addFeature example_library (init example_library example_analysis) ''metrics'' ''L''))
        ''L'') = Some (Some 2)
   \<and> map_option (\<lambda>m. map_option length (m ''P1''))
     (metric_features
        (state_after (addFeature example_library
           (state_after (addFeature example_library (init example_library example_analysis) ''metrics'' ''L''))
           ''metrics'' ''L''))
        ''L'') = Some (Some 4)
   \<and> map_option length
     (all_data (state_after (getFeaturesData example_library (init example_library example_analysis) ''L''))
        ''L'') = Some 3
   \<and> map_option length
     (all_data
        (state_after (getFeaturesData example_library
           (state_after (getFeaturesData example_library (init example_library example_analysis) ''L''))
           ''L''))
        ''L'') = Some 6"
  by code_simp

section \<open>The end-to-end scenario\<close>

lemma concatenate_shape:
  assumes "arrays \<noteq> []" and "\<forall>a \<in> set arrays. shape1 a = k"
  shows "\<exists>c. concatenate arrays = Inr c \<and> shape1 c = k
           \<and> shape0 c = sum_list (map shape0 arrays)"
proof (cases arrays)
  case Nil
  with assms(1) show ?thesis by simp
next
  case (Cons a rest)
  with assms(2) have "list_all (\<lambda>b. shape1 b = shape1 a) rest" "shape1 a = k"
    by (simp_all add: list_all_iff)
  then show ?thesis
    unfolding Cons by (simp add: concatenate_def shape0_def[abs_def] length_concat comp_def)
qed

lemma calculateTICA_proteins_lookup:
  "calculateTICA_proteins lib l m d s = Inr s' \<Longrightarrow> distinct (map fst d) \<Longrightarrow> (p, a) \<in> set d \<Longrightarrow>
     \<exists>tc c. tica_concatenated s' l = Some tc \<and> tc p = Some c
        \<and> concatenate (transform lib m a) = Inr c"
proof (induction d arbitrary: s)
  case Nil
  then show ?case by simp
next
  case (Cons qb d)
  obtain q b where qb: "qb = (q, b)" by (cases qb)
  from Cons.prems(1) obtain cc where cc: "concatenate (transform lib m b) = Inr cc"
    by (auto simp: qb Let_def split: sum.splits)
  let ?to = "(case tica_output s l of None \<Rightarrow> Map.empty | Some x \<Rightarrow> x)(q \<mapsto> transform lib m b)"
  let ?tc = "(case tica_concatenated s l of None \<Rightarrow> Map.empty | Some x \<Rightarrow> x)(q \<mapsto> cc)"
  let ?s2 = "s\<lparr>tica_output := (tica_output s)(l \<mapsto> ?to),
               tica_concatenated := (tica_concatenated s)(l \<mapsto> ?tc)\<rparr>"
  from Cons.prems(1) cc have run: "calculateTICA_proteins lib l m d ?s2 = Inr s'"
    by (simp add: qb Let_def)
  show ?case
  proof (cases "(p, a) \<in> set d")
    case True
    from Cons.prems(2) have "distinct (map fst d)" by simp
    from Cons.IH[OF run this True] show ?thesis .
  next
    case False
    with Cons.prems(3) have pa: "p = q" "a = b" by (simp_all add: qb)
    from Cons.prems(2) have notin: "q \<notin> fst ` set d" by (simp add: qb)
    have "tica_output ?s2 l = Some ?to" "tica_concatenated ?s2 l = Some ?tc" by simp_all
    from calculateTICA_proteins_shape[OF run this] obtain c' where
      "tica_concatenated s' = (tica_concatenated ?s2)(l \<mapsto> c')"
      "\<forall>r. r \<notin> fst ` set d \<longrightarrow> c' r = ?tc r" by blast
    with notin have "tica_concatenated s' l = Some c'" "c' q = Some cc" by simp_all
    with cc pa show ?thesis by blast
  qed
qed

lemma loaded_features_plain:
  "trajectories s (p, l) = Some paths \<Longrightarrow> features s l = Some f \<Longrightarrow> metric_features s l = None
     \<Longrightarrow> loaded_features lib s l p = Inr (load lib paths f)"
  by (simp add: loaded_features_def)

text \<open>
  C7. One ligand with two proteins, two trajectories for each pair, 100 frames in every loaded
  trajectory. The library is taken to load one array per file, to project a list of arrays array
  by array keeping the row counts, onto a column count \<open>dim m\<close> fixed by the fitted model, and to
  give as output of a fit the projection of the data it was fitted on. Then \<^verbatim>\<open>getFeaturesData\<close>
  followed by \<^verbatim>\<open>calculateTICA(ligand, 1)\<close> on the fresh instance returns, and for both proteins
  \<^verbatim>\<open>tica_concatenated[ligand][protein]\<close> has 200 rows and \<open>ndims\<close> columns, \<open>ndims\<close> being the column
  count of the pooled concatenated output.
\<close>

theorem end_to_end_shapes:
  fixes dim :: "'m \<Rightarrow> nat"
  assumes combos: "pele_combinations pa = [(P1, L), (P2, L)]"
    and prots: "proteins pa = [P1, P2]" and ne: "P1 \<noteq> P2"
    and two: "\<forall>p \<in> {P1, P2}. length (fst (getLigandTrajectoryPerTrajectory pa p L)) = 2"
    and frames: "\<forall>paths f. length (load lib paths f) = length paths
                   \<and> (\<forall>a \<in> set (load lib paths f). shape0 a = 100)"
    and rows: "\<forall>m arrays. length (transform lib m arrays) = length arrays
                   \<and> (\<forall>i < length arrays. shape0 (transform lib m arrays ! i) = shape0 (arrays ! i))"
    and cols: "\<forall>m arrays. \<forall>a \<in> set (transform lib m arrays). shape1 a = dim m"
    and out: "\<forall>arrays lag. get_output lib (tica lib arrays lag) = transform lib (tica lib arrays lag) arrays"
  shows "\<exists>s1 s2 n c0 tc. getFeaturesData lib (init lib pa) L = Inr s1
           \<and> calculateTICA lib s1 L 1 = Inr s2
           \<and> all_tica_concatenated s2 L = Some c0 \<and> shape1 c0 = n \<and> ndims s2 = Some n
           \<and> tica_concatenated s2 L = Some tc
           \<and> (\<forall>p \<in> {P1, P2}. \<exists>c. tc p = Some c \<and> shape0 c = 200 \<and> shape1 c = n)"
proof -
  let ?s = "init lib pa"
  define paths where "paths = (\<lambda>p. fst (getLigandTrajectoryPerTrajectory pa p L))"
  define f where "f = featurizer lib (snd (getLigandTrajectoryPerTrajectory pa P1 L))"
  define A where "A = (\<lambda>p. load lib (paths p) f)"
  have init: "pele_analysis ?s = pa" "trajectories ?s (P1, L) = Some (paths P1)"
    "trajectories ?s (P2, L) = Some (paths P2)" "features ?s L = Some f"
    "metric_features ?s L = None" "data ?s L = None" "all_data ?s L = None"
    using ne by (simp_all add: init_def combos Let_def case_prod_beta paths_def f_def)
  from getFeaturesData_unfold[of lib ?s L] init(1,6,7) obtain s0 where
    run: "getFeaturesData lib ?s L = getFeaturesData_proteins lib L [P1, P2] s0"
    and d0: "data s0 L = Some []" and a0: "all_data s0 L = Some []"
    and s0: "s0 = ?s\<lparr>data := (data ?s)(L \<mapsto> []), all_data := (all_data ?s)(L \<mapsto> [])\<rparr>"
    by (auto simp: prots)
  have lf: "\<forall>p \<in> set [P1, P2]. loaded_features lib s0 L p = Inr (A p)"
    using init by (auto simp: s0 A_def intro!: loaded_features_plain)
  define s1 where "s1 = fold (\<lambda>p st. pool st L p (A p)) [P1, P2] s0"
  have r1: "getFeaturesData lib ?s L = Inr s1"
    unfolding run s1_def by (rule getFeaturesData_proteins_returns[OF lf])
  have s1: "s1 = s0\<lparr>data := (data s0)(L \<mapsto> fold (\<lambda>p. AList.update p (A p)) [P1, P2] []),
             all_data := (all_data s0)(L \<mapsto> [] @ concat (map A [P1, P2]))\<rparr>"
    unfolding s1_def by (rule fold_pool_fields[OF d0 a0])
  have data1: "data s1 L = Some [(P1, A P1), (P2, A P2)]" and all1: "all_data s1 L = Some (A P1 @ A P2)"
    using ne by (simp_all add: s1)
  have lenA: "length (A p) = 2" "\<forall>a \<in> set (A p). shape0 a = 100" if "p \<in> {P1, P2}" for p
    using that two frames by (auto simp: A_def paths_def)
  define m where "m = tica lib (A P1 @ A P2) 1"
  have projected: "\<exists>c. concatenate (transform lib m arrays) = Inr c \<and> shape1 c = dim m
        \<and> shape0 c = sum_list (map shape0 (transform lib m arrays))" if "arrays \<noteq> []" for arrays
  proof (rule concatenate_shape)
    from that rows show "transform lib m arrays \<noteq> []" by (metis length_0_conv)
    from cols show "\<forall>a \<in> set (transform lib m arrays). shape1 a = dim m" by blast
  qed
  have pooled_ne: "A P1 @ A P2 \<noteq> []" using lenA(1)[of P1] by auto
  from projected[OF pooled_ne] out obtain c0 where
    c0: "concatenate (get_output lib m) = Inr c0" "shape1 c0 = dim m"
    by (auto simp: m_def)
  have each: "\<exists>c. concatenate (transform lib m (A p)) = Inr c \<and> shape1 c = dim m \<and> shape0 c = 200"
    if p: "p \<in> {P1, P2}" for p
  proof -
    from lenA(1)[OF p] have ne: "A p \<noteq> []" by auto
    from projected[OF ne] obtain c where c: "concatenate (transform lib m (A p)) = Inr c"
      "shape1 c = dim m" "shape0 c = sum_list (map shape0 (transform lib m (A p)))" by blast
    from rows lenA[OF p] have len: "length (transform lib m (A p)) = 2"
      and r: "\<forall>i < 2. shape0 (transform lib m (A p) ! i) = 100"
      by (auto simp: all_set_conv_all_nth)
    then obtain x y where xy: "transform lib m (A p) = [x, y]"
      by (metis (no_types) length_0_conv length_Suc_conv numeral_2_eq_2)
    from r have "shape0 (transform lib m (A p) ! 0) = 100" "shape0 (transform lib m (A p) ! 1) = 100"
      by simp_all
    with xy have "shape0 x = 100" "shape0 y = 100" by simp_all
    with c xy show ?thesis by simp
  qed
  have "\<exists>s2. calculateTICA lib s1 L 1 = Inr s2"
  proof (rule calculateTICA_returns[OF all1 _ data1])
    show "concatenate (get_output lib (tica lib (A P1 @ A P2) 1)) = Inr c0"
      using c0 by (simp add: m_def)
    show "\<forall>pa \<in> set [(P1, A P1), (P2, A P2)].
        \<exists>c. concatenate (transform lib (tica lib (A P1 @ A P2) 1) (snd pa)) = Inr c"
      using each by (auto simp: m_def)
  qed
  then obtain s2 where r2: "calculateTICA lib s1 L 1 = Inr s2" ..
  from calculateTICA_returned[OF r2] all1 c0
  have fit: "all_tica_concatenated s2 L = Some c0" "ndims s2 = Some (dim m)"
    by (auto simp: m_def)
  from r2 all1 c0 data1 obtain s6 where
    ctp: "calculateTICA_proteins lib L m [(P1, A P1), (P2, A P2)] s6 = Inr s2"
    by (auto simp: calculateTICA_def Let_def m_def split: if_splits)
  have dist: "distinct (map fst [(P1, A P1), (P2, A P2)])" using ne by simp
  from calculateTICA_proteins_lookup[OF ctp dist, of P1 "A P1"] each[of P1]
  obtain tc c1 where tc: "tica_concatenated s2 L = Some tc"
    and c1: "tc P1 = Some c1" "shape0 c1 = 200" "shape1 c1 = dim m"
    by auto
  from calculateTICA_proteins_lookup[OF ctp dist, of P2 "A P2"] each[of P2] tc
  obtain c2 where c2: "tc P2 = Some c2" "shape0 c2 = 200" "shape1 c2 = dim m"
    by auto
  from r1 r2 fit c0(2) tc c1 c2 show ?thesis
    by (intro exI[of _ s1] exI[of _ s2] exI[of _ "dim m"] exI[of _ c0] exI[of _ tc]) simp
qed

lemma scenario_library_simps:
  "load scenario_library paths f = map (\<lambda>path. \<lparr>shape1 = 3, cells = replicate 100 [0, 0, 0]\<rparr>) paths"
  "transform scenario_library m arrays = map (keep_columns (snd m)) arrays"
  "get_output scenario_library m = map (keep_columns (snd m)) (fst m)"
  "tica scenario_library arrays lag = (arrays, nat lag)"
  by (simp_all add: scenario_library_def example_library_def)

theorem end_to_end_shapes_witness:
  "\<exists>s1 s2 n tc c1 c2.
      getFeaturesData scenario_library (init scenario_library scenario_analysis) ''L'' = Inr s1
    \<and> calculateTICA scenario_library s1 ''L'' 1 = Inr s2
    \<and> ndims s2 = Some n \<and> tica_concatenated s2 ''L'' = Some tc
    \<and> tc ''P1'' = Some c1 \<and> shape0 c1 = 200 \<and> shape1 c1 = n
    \<and> tc ''P2'' = Some c2 \<and> shape0 c2 = 200 \<and> shape1 c2 = n"
proof -
  have combos: "pele_combinations scenario_analysis = [(''P1'', ''L''), (''P2'', ''L'')]"
    and prots: "proteins scenario_analysis = [''P1'', ''P2'']"
    and ne: "''P1'' \<noteq> ''P2''"
    and two: "\<forall>p \<in> {''P1'', ''P2''}. length (fst (getLigandTrajectoryPerTrajectory scenario_analysis p ''L'')) = 2"
    by (simp_all add: scenario_analysis_def)
  have frames: "\<forall>paths f. length (load scenario_library paths f) = length paths
                   \<and> (\<forall>a \<in> set (load scenario_library paths f). shape0 a = 100)"
    by (auto simp: scenario_library_simps shape0_def)
  have rows: "\<forall>m arrays. length (transform scenario_library m arrays) = length arrays
      \<and> (\<forall>i < length arrays. shape0 (transform scenario_library m arrays ! i) = shape0 (arrays ! i))"
    by (simp add: scenario_library_simps shape0_def keep_columns_def)
  have cols: "\<forall>m arrays. \<forall>a \<in> set (transform scenario_library m arrays). shape1 a = snd m"
    by (auto simp: scenario_library_simps keep_columns_def)
  have out: "\<forall>arrays lag. get_output scenario_library (tica scenario_library arrays lag)
      = transform scenario_library (tica scenario_library arrays lag) arrays"
    by (simp add: scenario_library_simps)
  from end_to_end_shapes[OF combos prots ne two frames rows cols out]
  obtain s1 s2 n tc where
    "getFeaturesData scenario_library (init scenario_library scenario_analysis) ''L'' = Inr s1"
    "calculateTICA scenario_library s1 ''L'' 1 = Inr s2"
    "ndims s2 = Some n" "tica_concatenated s2 ''L'' = Some tc"
    and per: "\<forall>p \<in> {''P1'', ''P2''}. \<exists>c. tc p = Some c \<and> shape0 c = 200 \<and> shape1 c = n"
    by blast
  moreover from per obtain c1 where "tc ''P1'' = Some c1" "shape0 c1 = 200" "shape1 c1 = n"
    by blast
  moreover from per obtain c2 where "tc ''P2'' = Some c2" "shape0 c2 = 200" "shape1 c2 = n"
    by blast
  ultimately show ?thesis by blast
qed

end
